theory Spec2Isabelle
  imports Main "HOL-Library.Word"
begin

section \<open>Data model (types.ts, src/unnamed/part_002)\<close>

text \<open>
  Strings are character lists. Numbers that the code adds and subtracts (sizes) are
  \<open>int\<close>: they are integer-valued JavaScript numbers far below \<open>2^53\<close>. Points in
  time are \<open>nat\<close>: \<open>Date.now()\<close> in milliseconds, and a \<open>Date\<close> object is its
  millisecond value. One storage or upload call reads the clock as one value \<open>now\<close>.
  The BTL of an entry is an \<open>int\<close>: a mirror file can hold any number there.
\<close>

type_synonym byte = "8 word"

record site_metadata =
  siteId :: string
  name :: string
  domain :: string
  totalSize :: int
  fileCount :: nat
  createdAt :: nat
  btlExpiry :: nat

text \<open>
  The \<open>value\<close> of an entry is a \<open>Uint8Array\<close>. File entries hold the uploaded bytes.
  The metadata entry holds \<open>new TextEncoder().encode(JSON.stringify(metadata))\<close>; it is
  kept as \<open>MetaJson metadata\<close>, and \<open>JSON.parse\<close> of the decoded text gives the
  metadata back (its fields are strings, integers and dates, which survive the trip).
\<close>

datatype payload = Bytes "byte list" | MetaJson site_metadata

record site_file =
  path :: string
  content :: payload
  contentType :: string
  fsize :: int
  lastModified :: nat

record entry_meta =
  meta_contentType :: string
  meta_path :: string
  meta_siteId :: string
  meta_size :: int
  meta_lastModified :: nat

record db_entry =
  key :: string
  val :: payload
  meta :: entry_meta
  btl :: int

record file_result =
  fr_path :: string
  fr_size :: int
  fr_key :: string
  fr_txHash :: "string option"

record upload_result =
  r_siteId :: string
  r_domain :: string
  r_files :: "file_result list"
  r_totalSize :: int
  r_indexTxHash :: "string option"

record store_result =
  s_metadata :: site_metadata
  s_files :: "file_result list"
  s_indexTxHash :: "string option"

text \<open>An uploaded file as the gateway hands it over: \<open>{ path, content }\<close>.\<close>

type_synonym raw_file = "string \<times> byte list"

section \<open>Environment\<close>

text \<open>
  What the code takes from outside itself. \<open>maxFileSize\<close> and \<open>maxSiteSize\<close> are the
  constructor arguments of \<open>SiteUploader\<close>. The other fields stand for library calls
  whose code is not part of the repository: \<open>lookup\<close> of the package mime-types
  (\<open>None\<close> for its \<open>false\<close>), \<open>wallet.signTransaction\<close> of ethers (\<open>None\<close> when it
  throws; the argument is the nonce text), \<open>JSON.parse\<close> applied to bytes that are not
  the output of \<open>JSON.stringify(metadata)\<close> (\<open>None\<close> when it throws), and the length
  of \<open>JSON.stringify(metadata)\<close>.
\<close>

record env =
  maxFileSize :: int
  maxSiteSize :: int
  mime_lookup :: "string \<Rightarrow> string option"
  signer :: "string option \<Rightarrow> string option"
  json_parse :: "byte list \<Rightarrow> site_metadata option"
  json_length :: "site_metadata \<Rightarrow> int"

text \<open>
  One reply of the JSON-RPC endpoint to one \<open>fetch\<close>: the request fails (\<open>fetch\<close> or
  \<open>response.json()\<close> rejects), the HTTP status is not ok, the body carries
  \<open>error\<close>, or the body carries \<open>result\<close> (\<open>None\<close> for null or undefined).
\<close>

datatype rpc_reply = NetFail | HttpFail | RpcError | RpcResult "string option"

text \<open>
  The state the code acts on.
  \<^item> \<open>mirror\<close>: the entry files on disk, by absolute path (a list of segments). A path
    holds an entry when the file there parses as one; every other path is \<open>None\<close>.
  \<^item> \<open>dirs\<close>: the directories that exist. The code makes one directory, \<open>STORAGE_DIR\<close>
    (\<open>ensureStorageDir\<close>), and never another.
  \<^item> \<open>ledger\<close>: the replies the ledger endpoint gives to the coming requests; when the
    list has run out the ledger is unreachable.
  \<^item> \<open>disk\<close>: the outcomes of the coming \<open>writeFile\<close> calls whose directory exists
    (\<open>False\<close>: it rejects for another reason, such as a full disk or a directory at
    the place of the file, and leaves the files as they were); when the list has run
    out the write succeeds.
\<close>

record world =
  mirror :: "string list \<Rightarrow> db_entry option"
  dirs :: "string list list"
  ledger :: "rpc_reply list"
  disk :: "bool list"

datatype ledger_error =
  NetworkError | NonceFetchFailed | NonceError | SignFailed | TransactionFailed | GolemDBError

datatype error =
  InvalidUploadData
  | SiteAlreadyExists string
  | SiteDoesNotExist string
  | SiteExpired string
  | FileTooLarge string
  | SiteTooLarge
  | InvalidFilePath string
  | EmptyFilePath
  | MissingIndex
  | FileTypeNotAllowed string
  | HiddenFileNotAllowed string
  | WriteFileFailed string

section \<open>String helpers (JavaScript \<open>String.prototype\<close>)\<close>

definition startsWith :: "string \<Rightarrow> string \<Rightarrow> bool" where
  "startsWith s p = (take (length p) s = p)"

fun includes_str :: "string \<Rightarrow> string \<Rightarrow> bool" where
  "includes_str [] sub = (sub = [])"
| "includes_str (c # cs) sub = (startsWith (c # cs) sub \<or> includes_str cs sub)"

text \<open>\<open>a || b\<close> on an optional string: the empty string is falsy.\<close>

definition or_else :: "string option \<Rightarrow> string \<Rightarrow> string" where
  "or_else a b = (case a of None \<Rightarrow> b | Some s \<Rightarrow> if s = [] then b else s)"

definition or_undefined :: "string \<Rightarrow> string option" where
  "or_undefined s = (if s = [] then None else Some s)"

section \<open>Paths (\<open>join\<close> of the Node module path)\<close>

text \<open>
  \<open>split_slash\<close> is \<open>s.split('/')\<close>. \<open>path_join a b\<close> is \<open>join(a, b)\<close> for an absolute
  \<open>a\<close> and a non-empty \<open>b\<close>, given as the list of the segments of the result: the two
  are joined by a slash and normalised, which drops empty segments and \<open>.\<close> segments and
  lets a \<open>..\<close> segment remove the segment before it (at the root it is dropped).
\<close>

fun split_acc :: "string \<Rightarrow> string \<Rightarrow> string list" where
  "split_acc cur [] = [cur]"
| "split_acc cur (c # cs) =
     (if c = CHR ''/'' then cur # split_acc [] cs else split_acc (cur @ [c]) cs)"

definition split_slash :: "string \<Rightarrow> string list" where
  "split_slash s = split_acc [] s"

definition push_segment :: "string list \<Rightarrow> string \<Rightarrow> string list" where
  "push_segment res seg =
     (if seg = [] \<or> seg = ''.'' then res
      else if seg = ''..'' then butlast res
      else res @ [seg])"

definition path_join :: "string \<Rightarrow> string \<Rightarrow> string list" where
  "path_join a b = foldl push_segment [] (split_slash (a @ ''/'' @ b))"

section \<open>GolemDBClient (src/src/golem-db-client.ts)\<close>

definition fetch :: "rpc_reply list \<Rightarrow> rpc_reply \<times> rpc_reply list" where
  "fetch rs = (case rs of [] \<Rightarrow> (NetFail, []) | r # rs' \<Rightarrow> (r, rs'))"

text \<open>\<open>getNonce\<close>: the result text is kept as it is (\<open>parseInt(result.result, 16)\<close>).\<close>

definition getNonce :: "rpc_reply list \<Rightarrow> (ledger_error + string option) \<times> rpc_reply list" where
  "getNonce rs =
     (case fetch rs of (reply, rs') \<Rightarrow>
        (case reply of
           NetFail \<Rightarrow> (Inl NetworkError, rs')
         | HttpFail \<Rightarrow> (Inl NonceFetchFailed, rs')
         | RpcError \<Rightarrow> (Inl NonceError, rs')
         | RpcResult v \<Rightarrow> (Inr v, rs')))"

definition truthy :: "string option \<Rightarrow> bool" where
  "truthy v = (case v of None \<Rightarrow> False | Some s \<Rightarrow> s \<noteq> [])"

text \<open>
  \<open>waitForTransaction\<close>: the loop \<open>for (i = 0; i < maxRetries; i++)\<close>, counted down by
  the number of rounds still to come after the current one, so that the source's
  \<open>i === maxRetries - 1\<close> is \<open>left = 0\<close>. It never throws: an error of a round is
  caught inside the loop.
\<close>

fun waitForTransaction :: "nat \<Rightarrow> rpc_reply list \<Rightarrow> string option \<times> rpc_reply list" where
  "waitForTransaction 0 rs = (None, rs)"
| "waitForTransaction (Suc left) rs =
     (case fetch rs of (reply, rs') \<Rightarrow>
        (case reply of
           RpcResult v \<Rightarrow> if truthy v then (v, rs') else waitForTransaction left rs'
         | _ \<Rightarrow> if left = 0 then (None, rs') else waitForTransaction left rs'))"

text \<open>
  \<open>createEntity\<close>: key, data, annotations and BTL are only logged (the transaction is
  sent with \<open>data: "0x"\<close>), so the model does not take them. The entity key returned is
  the \<open>result\<close> of \<open>eth_sendRawTransaction\<close>.
\<close>

definition createEntity :: "env \<Rightarrow> rpc_reply list \<Rightarrow> (ledger_error + string option) \<times> rpc_reply list" where
  "createEntity e rs =
     (case getNonce rs of
        (Inl err, rs1) \<Rightarrow> (Inl err, rs1)
      | (Inr nonce, rs1) \<Rightarrow>
          (case signer e nonce of
             None \<Rightarrow> (Inl SignFailed, rs1)
           | Some signedTx \<Rightarrow>
               (case fetch rs1 of (reply, rs2) \<Rightarrow>
                  (case reply of
                     NetFail \<Rightarrow> (Inl NetworkError, rs2)
                   | HttpFail \<Rightarrow> (Inl TransactionFailed, rs2)
                   | RpcError \<Rightarrow> (Inl GolemDBError, rs2)
                   | RpcResult txHash \<Rightarrow>
                       (case waitForTransaction 10 rs2 of (receipt, rs3) \<Rightarrow> (Inr txHash, rs3))))))"

section \<open>FileStorage (file-storage.ts, the third class of src/src/db-chain.ts)\<close>

definition generateFileKey :: "string \<Rightarrow> string \<Rightarrow> string" where
  "generateFileKey sid p =
     ''site:'' @ sid @ '':file:'' @ (if startsWith p ''/'' then drop 1 p else p)"

definition generateMetadataKey :: "string \<Rightarrow> string" where
  "generateMetadataKey sid = ''site:'' @ sid @ '':metadata''"

definition isExpired :: "nat \<Rightarrow> db_entry \<Rightarrow> bool" where
  "isExpired now entry =
     (let now_s = int (now div 1000) in btl entry > 0 \<and> now_s > btl entry)"

definition STORAGE_DIR :: string where
  "STORAGE_DIR = ''/tmp/webdb-storage''"

text \<open>The file of a key: \<open>join(STORAGE_DIR, key + '.json')\<close>.\<close>

definition filePath :: "string \<Rightarrow> string list" where
  "filePath k = path_join STORAGE_DIR (k @ ''.json'')"

text \<open>
  \<open>ensureStorageDir\<close>: \<open>mkdir(STORAGE_DIR, { recursive: true })\<close> unless the directory
  is there; the directory and the directories above it exist afterwards.
\<close>

fun ancestors :: "string list \<Rightarrow> string list list" where
  "ancestors [] = [[]]"
| "ancestors (seg # rest) = [] # map ((#) seg) (ancestors rest)"

definition ensureStorageDir :: "world \<Rightarrow> world" where
  "ensureStorageDir w =
     (let d = foldl push_segment [] (split_slash STORAGE_DIR)
      in if d \<in> set (dirs w) then w else w\<lparr>dirs := dirs w @ ancestors d\<rparr>)"

text \<open>
  \<open>storeLocally\<close> writes the entry as JSON to its file. \<open>writeFile\<close> makes no
  directory: it rejects (ENOENT) when the directory of the file does not exist.
  \<open>readLocally\<close> parses the file and answers \<open>null\<close> on any error. The byte array,
  the metadata and the BTL survive the JSON round trip unchanged.
\<close>

definition storeLocally :: "world \<Rightarrow> string \<Rightarrow> db_entry \<Rightarrow> (error + unit) \<times> world" where
  "storeLocally w k entry =
     (let file = filePath k
      in if butlast file \<notin> set (dirs w) then (Inl (WriteFileFailed k), w)
         else (case disk w of
                 [] \<Rightarrow> (Inr (), w\<lparr>mirror := (mirror w)(file \<mapsto> entry)\<rparr>)
               | ok # rest \<Rightarrow>
                   if ok then (Inr (), w\<lparr>mirror := (mirror w)(file \<mapsto> entry), disk := rest\<rparr>)
                   else (Inl (WriteFileFailed k), w\<lparr>disk := rest\<rparr>)))"

definition readLocally :: "world \<Rightarrow> string \<Rightarrow> db_entry option" where
  "readLocally w k = mirror w (filePath k)"

text \<open>\<open>writeToGolemDB\<close>: every error of the client is caught and answered by \<open>null\<close>.\<close>

definition writeToGolemDB :: "env \<Rightarrow> world \<Rightarrow> db_entry \<Rightarrow> string option \<times> world" where
  "writeToGolemDB e w entry =
     (case createEntity e (ledger w) of
        (Inr entityKey, rs) \<Rightarrow> (entityKey, w\<lparr>ledger := rs\<rparr>)
      | (Inl err, rs) \<Rightarrow> (None, w\<lparr>ledger := rs\<rparr>))"

definition thirty_days :: nat where
  "thirty_days = 30 * 24 * 60 * 60"

definition file_entry :: "nat \<Rightarrow> string \<Rightarrow> site_file \<Rightarrow> db_entry" where
  "file_entry now sid file =
     \<lparr>key = generateFileKey sid (path file),
      val = content file,
      meta = \<lparr>meta_contentType = contentType file, meta_path = path file, meta_siteId = sid,
               meta_size = fsize file, meta_lastModified = lastModified file\<rparr>,
      btl = int (now div 1000 + thirty_days)\<rparr>"

definition storeFile :: "env \<Rightarrow> nat \<Rightarrow> world \<Rightarrow> string \<Rightarrow> site_file \<Rightarrow> (error + string) \<times> world" where
  "storeFile e now w sid file =
     (let k = generateFileKey sid (path file);
          entry = file_entry now sid file
      in case writeToGolemDB e w entry of (txHash, w1) \<Rightarrow>
           (case storeLocally w1 k entry of
              (Inl err, w2) \<Rightarrow> (Inl err, w2)
            | (Inr u, w2) \<Rightarrow> (Inr (or_else txHash k), w2)))"

text \<open>
  The loop of \<open>storeSite\<close> over the files, with its two accumulators \<open>fileResults\<close>
  and \<open>indexTxHash\<close>. A throw of \<open>storeFile\<close> ends it.
\<close>

fun store_files ::
  "env \<Rightarrow> nat \<Rightarrow> string \<Rightarrow> site_file list \<Rightarrow> world \<Rightarrow> file_result list \<Rightarrow> string option
   \<Rightarrow> (error + file_result list \<times> string option) \<times> world" where
  "store_files e now sid [] w fileResults indexTxHash = (Inr (fileResults, indexTxHash), w)"
| "store_files e now sid (file # rest) w fileResults indexTxHash =
     (case storeFile e now w sid file of
        (Inl err, w1) \<Rightarrow> (Inl err, w1)
      | (Inr txHash, w1) \<Rightarrow>
          store_files e now sid rest w1
            (fileResults @ [\<lparr>fr_path = path file, fr_size = fsize file,
                              fr_key = generateFileKey sid (path file),
                              fr_txHash = or_undefined txHash\<rparr>])
            (if path file = ''index.html'' then or_undefined txHash else indexTxHash))"

definition site_metadata_of :: "nat \<Rightarrow> string \<Rightarrow> site_file list \<Rightarrow> site_metadata" where
  "site_metadata_of now sid files =
     \<lparr>siteId = sid, name = sid, domain = sid @ ''.webdb.site'',
      totalSize = foldl (\<lambda>sum file. sum + fsize file) 0 files,
      fileCount = length files,
      createdAt = now,
      btlExpiry = now + thirty_days * 1000\<rparr>"

definition metadata_entry :: "env \<Rightarrow> nat \<Rightarrow> string \<Rightarrow> site_metadata \<Rightarrow> db_entry" where
  "metadata_entry e now sid metadata =
     \<lparr>key = generateMetadataKey sid,
      val = MetaJson metadata,
      meta = \<lparr>meta_contentType = ''application/json'', meta_path = ''_metadata'',
               meta_siteId = sid, meta_size = json_length e metadata, meta_lastModified = now\<rparr>,
      btl = int (now div 1000 + thirty_days)\<rparr>"

definition storeSite ::
  "env \<Rightarrow> nat \<Rightarrow> world \<Rightarrow> string \<Rightarrow> site_file list \<Rightarrow> (error + store_result) \<times> world" where
  "storeSite e now w sid files =
     (case store_files e now sid files w [] None of
        (Inl err, w1) \<Rightarrow> (Inl err, w1)
      | (Inr (fileResults, indexTxHash), w1) \<Rightarrow>
          (let metadata = site_metadata_of now sid files;
               metadataKey = generateMetadataKey sid;
               metadataEntry = metadata_entry e now sid metadata
           in case writeToGolemDB e w1 metadataEntry of (txHash, w2) \<Rightarrow>
                (case storeLocally w2 metadataKey metadataEntry of
                   (Inl err, w3) \<Rightarrow> (Inl err, w3)
                 | (Inr u, w3) \<Rightarrow>
                     (Inr \<lparr>s_metadata = metadata, s_files = fileResults,
                           s_indexTxHash = indexTxHash\<rparr>, w3))))"

definition getFile :: "env \<Rightarrow> nat \<Rightarrow> world \<Rightarrow> string \<Rightarrow> string \<Rightarrow> site_file option" where
  "getFile e now w sid p =
     (case readLocally w (generateFileKey sid p) of
        None \<Rightarrow> None
      | Some entry \<Rightarrow>
          if isExpired now entry then None
          else Some \<lparr>path = meta_path (meta entry), content = val entry,
                     contentType = meta_contentType (meta entry),
                     fsize = meta_size (meta entry),
                     lastModified = meta_lastModified (meta entry)\<rparr>)"

definition getSiteMetadata :: "env \<Rightarrow> nat \<Rightarrow> world \<Rightarrow> string \<Rightarrow> site_metadata option" where
  "getSiteMetadata e now w sid =
     (case readLocally w (generateMetadataKey sid) of
        None \<Rightarrow> None
      | Some entry \<Rightarrow>
          if isExpired now entry then None
          else (case val entry of MetaJson metadata \<Rightarrow> Some metadata
                | Bytes bs \<Rightarrow> json_parse e bs))"

section \<open>SiteUploader (uploader.ts, src/unnamed/part_003)\<close>

text \<open>
  \<open>uploadSchema\<close>: the site id has 1 to 64 characters of \<open>[a-zA-Z0-9-_]\<close>, there are
  1 to 1000 files, every path has at least one character.
\<close>

definition siteId_char :: "char \<Rightarrow> bool" where
  "siteId_char c =
     (c \<in> set ''abcdefghijklmnopqrstuvwxyzABCDEFGHIJKLMNOPQRSTUVWXYZ0123456789-_'')"

definition uploadSchema :: "string \<Rightarrow> raw_file list \<Rightarrow> bool" where
  "uploadSchema sid files =
     (1 \<le> length sid \<and> length sid \<le> 64 \<and> list_all siteId_char sid
      \<and> list_all (\<lambda>fileData. 1 \<le> length (fst fileData)) files
      \<and> 1 \<le> length files \<and> length files \<le> 1000)"

definition normalize_path :: "string \<Rightarrow> string" where
  "normalize_path p =
     (let p1 = map (\<lambda>c. if c = CHR 0x5C then CHR ''/'' else c) p
      in if startsWith p1 ''/'' then drop 1 p1 else p1)"

definition content_type_of :: "env \<Rightarrow> string \<Rightarrow> string" where
  "content_type_of e p = or_else (mime_lookup e p) ''application/octet-stream''"

definition processFile :: "env \<Rightarrow> nat \<Rightarrow> raw_file \<Rightarrow> error + site_file" where
  "processFile e now fileData =
     (let p = normalize_path (fst fileData)
      in if includes_str p ''..'' \<or> includes_str p ''//'' then Inl (InvalidFilePath p)
         else if length p = 0 then Inl EmptyFilePath
         else Inr \<lparr>path = p, content = Bytes (snd fileData),
                   contentType = content_type_of e p,
                   fsize = int (length (snd fileData)),
                   lastModified = now\<rparr>)"

text \<open>\<open>toLowerCase\<close> on the letters A to Z; \<open>split('.').pop()\<close> is the text after the last dot.\<close>

definition toLowerCase :: "string \<Rightarrow> string" where
  "toLowerCase s =
     map (\<lambda>c. case map_of (zip ''ABCDEFGHIJKLMNOPQRSTUVWXYZ'' ''abcdefghijklmnopqrstuvwxyz'') c of
                 Some l \<Rightarrow> l | None \<Rightarrow> c) s"

definition last_segment :: "string \<Rightarrow> string" where
  "last_segment s = rev (takeWhile (\<lambda>c. c \<noteq> CHR ''.'') (rev s))"

definition suspiciousExtensions :: "string list" where
  "suspiciousExtensions = [''.exe'', ''.bat'', ''.sh'', ''.php'', ''.asp'', ''.jsp'']"

definition suspicious :: "site_file \<Rightarrow> bool" where
  "suspicious file =
     (let extension = last_segment (toLowerCase (path file))
      in extension \<noteq> [] \<and> (''.'' @ extension) \<in> set suspiciousExtensions)"

definition allowedHiddenFiles :: "string list" where
  "allowedHiddenFiles = [''.htaccess'', ''.well-known'']"

definition hidden_not_allowed :: "site_file \<Rightarrow> bool" where
  "hidden_not_allowed file =
     (startsWith (path file) ''.'' \<and>
      \<not> list_ex (\<lambda>allowed. path file = allowed \<or> startsWith (path file) (allowed @ ''/''))
          allowedHiddenFiles)"

definition validateSiteStructure :: "site_file list \<Rightarrow> error + unit" where
  "validateSiteStructure files =
     (let hasIndexHtml = list_ex (\<lambda>f. path f = ''index.html'') files;
          hasIndexHtm = list_ex (\<lambda>f. path f = ''index.htm'') files
      in if \<not> hasIndexHtml \<and> \<not> hasIndexHtm then Inl MissingIndex
         else (case find suspicious files of
                 Some file \<Rightarrow> Inl (FileTypeNotAllowed (path file))
               | None \<Rightarrow>
                   (case find hidden_not_allowed files of
                      Some file \<Rightarrow> Inl (HiddenFileNotAllowed (path file))
                    | None \<Rightarrow> Inr ())))"

text \<open>The first loop of \<open>uploadSite\<close>, with \<open>siteFiles\<close> and \<open>totalSize\<close> as accumulators.\<close>

fun process_site_files ::
  "env \<Rightarrow> nat \<Rightarrow> raw_file list \<Rightarrow> site_file list \<Rightarrow> int \<Rightarrow> error + site_file list \<times> int" where
  "process_site_files e now [] siteFiles running = Inr (siteFiles, running)"
| "process_site_files e now (fileData # rest) siteFiles running =
     (case processFile e now fileData of
        Inl err \<Rightarrow> Inl err
      | Inr file \<Rightarrow>
          if fsize file > maxFileSize e then Inl (FileTooLarge (path file))
          else (let total1 = running + fsize file
                in if total1 > maxSiteSize e then Inl SiteTooLarge
                   else process_site_files e now rest (siteFiles @ [file]) total1))"

definition uploadSite ::
  "env \<Rightarrow> nat \<Rightarrow> world \<Rightarrow> string \<Rightarrow> raw_file list \<Rightarrow> (error + upload_result) \<times> world" where
  "uploadSite e now w sid files =
     (if \<not> uploadSchema sid files then (Inl InvalidUploadData, w)
      else (case getSiteMetadata e now w sid of
              Some existingMetadata \<Rightarrow> (Inl (SiteAlreadyExists sid), w)
            | None \<Rightarrow>
                (case process_site_files e now files [] 0 of
                   Inl err \<Rightarrow> (Inl err, w)
                 | Inr (siteFiles, running) \<Rightarrow>
                     (case validateSiteStructure siteFiles of
                        Inl err \<Rightarrow> (Inl err, w)
                      | Inr u \<Rightarrow>
                          (case storeSite e now w sid siteFiles of
                             (Inl err, w1) \<Rightarrow> (Inl err, w1)
                           | (Inr result, w1) \<Rightarrow>
                               (Inr \<lparr>r_siteId = sid,
                                     r_domain = domain (s_metadata result),
                                     r_files = s_files result,
                                     r_totalSize = running,
                                     r_indexTxHash = s_indexTxHash result\<rparr>, w1))))))"

text \<open>
  The first loop of \<open>uploadFiles\<close>. It only reads the store (\<open>getFile\<close>), so the world is
  an argument and not a result.
\<close>

fun process_added_files ::
  "env \<Rightarrow> nat \<Rightarrow> world \<Rightarrow> string \<Rightarrow> raw_file list \<Rightarrow> site_file list \<Rightarrow> int
   \<Rightarrow> error + site_file list \<times> int" where
  "process_added_files e now w sid [] siteFiles running = Inr (siteFiles, running)"
| "process_added_files e now w sid (fileData # rest) siteFiles running =
     (case processFile e now fileData of
        Inl err \<Rightarrow> Inl err
      | Inr file \<Rightarrow>
          if fsize file > maxFileSize e then Inl (FileTooLarge (path file))
          else (let total1 = (case getFile e now w sid (path file) of
                                Some existingFile \<Rightarrow> running - fsize existingFile
                              | None \<Rightarrow> running);
                    total2 = total1 + fsize file
                in if total2 > maxSiteSize e then Inl SiteTooLarge
                   else process_added_files e now w sid rest (siteFiles @ [file]) total2))"

text \<open>The second loop of \<open>uploadFiles\<close>: the keys that \<open>storeFile\<close> returns.\<close>

fun store_added ::
  "env \<Rightarrow> nat \<Rightarrow> string \<Rightarrow> site_file list \<Rightarrow> world \<Rightarrow> string list
   \<Rightarrow> (error + string list) \<times> world" where
  "store_added e now sid [] w keys = (Inr keys, w)"
| "store_added e now sid (file # rest) w keys =
     (case storeFile e now w sid file of
        (Inl err, w1) \<Rightarrow> (Inl err, w1)
      | (Inr k, w1) \<Rightarrow> store_added e now sid rest w1 (keys @ [k]))"

definition uploadFiles ::
  "env \<Rightarrow> nat \<Rightarrow> world \<Rightarrow> string \<Rightarrow> raw_file list \<Rightarrow> (error + upload_result) \<times> world" where
  "uploadFiles e now w sid files =
     (case getSiteMetadata e now w sid of
        None \<Rightarrow> (Inl (SiteDoesNotExist sid), w)
      | Some metadata \<Rightarrow>
          if now > btlExpiry metadata then (Inl (SiteExpired sid), w)
          else (case process_added_files e now w sid files [] (totalSize metadata) of
                  Inl err \<Rightarrow> (Inl err, w)
                | Inr (siteFiles, running) \<Rightarrow>
                    (case store_added e now sid siteFiles w [] of
                       (Inl err, w1) \<Rightarrow> (Inl err, w1)
                     | (Inr keys, w1) \<Rightarrow>
                         (Inr \<lparr>r_siteId = sid,
                               r_domain = domain metadata,
                               r_files = map (\<lambda>(file, k). \<lparr>fr_path = path file, fr_size = fsize file,
                                                            fr_key = k, fr_txHash = None\<rparr>)
                                           (zip siteFiles keys),
                               r_totalSize = running,
                               r_indexTxHash = None\<rparr>, w1))))"

section \<open>Notions used in the statements\<close>

text \<open>
  The next \<open>writeFile\<close> for a key succeeds: the directory of its file exists and the
  disk does not reject the write.
\<close>

definition mirror_write_ok :: "world \<Rightarrow> string \<Rightarrow> bool" where
  "mirror_write_ok w k =
     (butlast (filePath k) \<in> set (dirs w) \<and> (case disk w of [] \<Rightarrow> True | ok # rest \<Rightarrow> ok))"

text \<open>The mirror after the entries of the files have been written in order, one after the other.\<close>

fun write_files ::
  "nat \<Rightarrow> string \<Rightarrow> site_file list \<Rightarrow> (string list \<Rightarrow> db_entry option)
   \<Rightarrow> (string list \<Rightarrow> db_entry option)" where
  "write_files now sid [] m = m"
| "write_files now sid (f # rest) m =
     write_files now sid rest (m(filePath (generateFileKey sid (path f)) \<mapsto> file_entry now sid f))"

text \<open>
  What the loop of \<open>uploadFiles\<close> subtracts for a path: the recorded size of the file
  that \<open>getFile\<close> finds there, nothing when it finds none.
\<close>

definition replaced_size :: "env \<Rightarrow> nat \<Rightarrow> world \<Rightarrow> string \<Rightarrow> string \<Rightarrow> int" where
  "replaced_size e now w sid p =
     (case getFile e now w sid p of Some existingFile \<Rightarrow> fsize existingFile | None \<Rightarrow> 0)"

text \<open>What \<open>getFile\<close> makes of an entry.\<close>

definition file_of_entry :: "db_entry \<Rightarrow> site_file" where
  "file_of_entry entry =
     \<lparr>path = meta_path (meta entry), content = val entry,
      contentType = meta_contentType (meta entry),
      fsize = meta_size (meta entry),
      lastModified = meta_lastModified (meta entry)\<rparr>"

section \<open>Example data\<close>

text \<open>
  A small environment and store on which the theorems below are instantiated: the limits
  of the gateway's configuration (2 MB, 50 MB), a MIME table that knows \<open>html\<close>, a ledger
  that is unreachable and a disk that works. \<open>empty_world\<close> is the store of a fresh
  installation: no entry files, and the storage directory made by \<open>ensureStorageDir\<close>.
\<close>

definition example_env :: env where
  "example_env =
     \<lparr>maxFileSize = 2 * 1024 * 1024, maxSiteSize = 50 * 1024 * 1024,
      mime_lookup = (\<lambda>p. if last_segment p = ''html'' then Some ''text/html'' else None),
      signer = (\<lambda>nonce. Some ''0xsigned''),
      json_parse = (\<lambda>bs. None),
      json_length = (\<lambda>metadata. 0)\<rparr>"

definition empty_world :: world where
  "empty_world = ensureStorageDir \<lparr>mirror = Map.empty, dirs = [], ledger = [], disk = []\<rparr>"

definition index_html :: raw_file where
  "index_html = (''index.html'', [0x3C, 0x68, 0x31, 0x3E])"

definition index_file :: site_file where
  "index_file = \<lparr>path = ''index.html'', content = Bytes [0x3C, 0x68, 0x31, 0x3E],
                  contentType = ''text/html'', fsize = 4, lastModified = 1000\<rparr>"


text \<open>
  More files: a text file and a shorter replacement for it, a path that climbs out of the
  site, a path with an empty first segment, a style sheet in a directory, a script and a
  hidden file. \<open>blog_world\<close> is the store after the site \<open>blog\<close> has been created at time
  1000 with two files (4 and 6 bytes). \<open>undated_world\<close> holds a mirror file whose BTL is
  0. In \<open>grown_world\<close> a file has been added to \<open>blog\<close> twenty days after its creation.
\<close>

definition notes_txt :: raw_file where
  "notes_txt = (''notes.txt'', [0x6E, 0x6F, 0x74, 0x65, 0x73, 0x0A])"

definition notes_file :: site_file where
  "notes_file = \<lparr>path = ''notes.txt'', content = Bytes [0x6E, 0x6F, 0x74, 0x65, 0x73, 0x0A],
                  contentType = ''application/octet-stream'', fsize = 6, lastModified = 1000\<rparr>"

definition short_notes_txt :: raw_file where
  "short_notes_txt = (''notes.txt'', [0x6E, 0x0A])"



definition style_css :: raw_file where
  "style_css = (''css/style.css'', [0x61, 0x7B, 0x7D])"

definition style_file :: site_file where
  "style_file = \<lparr>path = ''css/style.css'', content = Bytes [0x61, 0x7B, 0x7D],
                  contentType = ''application/octet-stream'', fsize = 3, lastModified = 1000\<rparr>"

definition shell_php :: raw_file where
  "shell_php = (''shell.php'', [0x3C, 0x3F])"

definition dot_env :: raw_file where
  "dot_env = (''.env'', [0x4B])"

definition late_txt :: raw_file where
  "late_txt = (''late.txt'', [0x6C])"

definition blog_world :: world where
  "blog_world = snd (uploadSite example_env 1000 empty_world ''blog'' [index_html, notes_txt])"

definition grown_world :: world where
  "grown_world = snd (uploadFiles example_env 1728000000 blog_world ''blog'' [late_txt])"

definition undated_entry :: db_entry where
  "undated_entry =
     \<lparr>key = ''site:blog:file:index.html'', val = Bytes [0x3C, 0x68, 0x31, 0x3E],
      meta = \<lparr>meta_contentType = ''text/html'', meta_path = ''index.html'', meta_siteId = ''blog'',
               meta_size = 4, meta_lastModified = 1000\<rparr>,
      btl = 0\<rparr>"

definition undated_world :: world where
  "undated_world =
     empty_world\<lparr>mirror := [filePath ''site:blog:file:index.html'' \<mapsto> undated_entry]\<rparr>"

section \<open>Evaluation\<close>

lemmas eval_defs = example_env_def empty_world_def index_html_def index_file_def
  createEntity_def getNonce_def fetch_def storeFile_def writeToGolemDB_def storeLocally_def
  generateFileKey_def generateMetadataKey_def startsWith_def or_else_def or_undefined_def
  file_entry_def thirty_days_def mirror_write_ok_def readLocally_def
  split_slash_def push_segment_def path_join_def filePath_def STORAGE_DIR_def
  ensureStorageDir_def
  processFile_def normalize_path_def content_type_of_def last_segment_def
  uploadSite_def uploadSchema_def siteId_char_def validateSiteStructure_def suspicious_def
  hidden_not_allowed_def toLowerCase_def suspiciousExtensions_def allowedHiddenFiles_def
  storeSite_def site_metadata_of_def metadata_entry_def getSiteMetadata_def getFile_def
  isExpired_def uploadFiles_def Let_def truthy_def

section \<open>Paths: the metadata file of a site is none of its entry files\<close>

lemma split_acc_eq:
  "split_acc cur s = (cur @ hd (split_acc [] s)) # tl (split_acc [] s)"
proof (induction s arbitrary: cur)
  case Nil
  then show ?case by simp
next
  case (Cons c cs)
  show ?case
  proof (cases "c = CHR ''/''")
    case True
    then show ?thesis by simp
  next
    case False
    from Cons[of "cur @ [c]"] Cons[of "[c]"] False show ?thesis by simp
  qed
qed

lemma split_slash_Nil: "split_slash [] = [[]]"
  by (simp add: split_slash_def)

lemma split_slash_Cons:
  "split_slash (c # cs) =
     (if c = CHR ''/'' then [] # split_slash cs
      else (c # hd (split_slash cs)) # tl (split_slash cs))"
  using split_acc_eq[of "[c]" cs] by (simp add: split_slash_def)

lemmas split_slash_rec = split_slash_Nil split_slash_Cons

lemma split_slash_ne [simp]: "split_slash s \<noteq> []"
  by (induction s) (auto simp: split_slash_rec)

lemma split_slash_append:
  "split_slash (x @ y) =
     butlast (split_slash x) @ (last (split_slash x) @ hd (split_slash y)) # tl (split_slash y)"
proof (induction x)
  case Nil
  then show ?case by (simp add: split_slash_rec)
next
  case (Cons c cs)
  show ?case
  proof (cases "c = CHR ''/''")
    case True
    with Cons show ?thesis by (simp add: split_slash_rec)
  next
    case False
    show ?thesis
    proof (cases "butlast (split_slash cs)")
      case Nil
      then have one: "split_slash cs = [last (split_slash cs)]"
        by (metis append_butlast_last_id append_Nil split_slash_ne)
      then have h: "hd (split_slash cs) = last (split_slash cs)" "tl (split_slash cs) = []"
        by (metis list.sel(1), metis list.sel(3))
      from Cons False Nil h show ?thesis by (simp add: split_slash_rec)
    next
      case (Cons b bs)
      then have "split_slash cs = (b # bs) @ [last (split_slash cs)]"
        by (metis append_butlast_last_id split_slash_ne)
      then have h: "hd (split_slash cs) = b" "tl (split_slash cs) = bs @ [last (split_slash cs)]"
        by (metis append_Cons list.sel(1), metis append_Cons list.sel(3))
      from Cons.IH False Cons h show ?thesis by (simp add: split_slash_rec)
    qed
  qed
qed

lemma split_slash_no_slash: "CHR ''/'' \<notin> set s \<Longrightarrow> split_slash s = [s]"
  by (induction s) (auto simp: split_slash_rec)

lemma includes_str_iff: "includes_str s sub \<longleftrightarrow> (\<exists>a b. s = a @ sub @ b)"
proof (induction s)
  case Nil
  then show ?case by auto
next
  case (Cons c cs)
  have pre: "startsWith (c # cs) sub \<longleftrightarrow> (\<exists>b. c # cs = sub @ b)"
    unfolding startsWith_def
    by (metis append_eq_conv_conj)
  show ?case
  proof
    assume "includes_str (c # cs) sub"
    then consider "startsWith (c # cs) sub" | "includes_str cs sub" by auto
    then show "\<exists>a b. c # cs = a @ sub @ b"
    proof cases
      case 1
      with pre obtain b where "c # cs = sub @ b" by blast
      then have "c # cs = [] @ sub @ b" by simp
      then show ?thesis by blast
    next
      case 2
      with Cons obtain a b where "cs = a @ sub @ b" by blast
      then have "c # cs = (c # a) @ sub @ b" by simp
      then show ?thesis by blast
    qed
  next
    assume "\<exists>a b. c # cs = a @ sub @ b"
    then obtain a b where ab: "c # cs = a @ sub @ b" by blast
    show "includes_str (c # cs) sub"
    proof (cases a)
      case Nil
      with ab have "\<exists>b. c # cs = sub @ b" by auto
      with pre have "startsWith (c # cs) sub" by blast
      then show ?thesis by simp
    next
      case (Cons a1 as)
      with ab have "cs = as @ sub @ b" by simp
      with Cons.IH show ?thesis by auto
    qed
  qed
qed

lemma hd_split_slash: "hd (split_slash q) = takeWhile (\<lambda>c. c \<noteq> CHR ''/'') q"
  by (induction q) (auto simp: split_slash_rec)

lemma segment_is_substring:
  "seg \<in> set (split_slash q) \<Longrightarrow> \<exists>a b. q = a @ seg @ b"
proof (induction q arbitrary: seg)
  case Nil
  then show ?case by (simp add: split_slash_rec)
next
  case (Cons c cs)
  show ?case
  proof (cases "c = CHR ''/''")
    case True
    with Cons.prems have "seg = [] \<or> seg \<in> set (split_slash cs)" by (simp add: split_slash_rec)
    then show ?thesis
    proof
      assume "seg = []"
      then have "c # cs = [] @ seg @ (c # cs)" by simp
      then show ?thesis by blast
    next
      assume "seg \<in> set (split_slash cs)"
      from Cons.IH[OF this] obtain a b where "cs = a @ seg @ b" by blast
      then have "c # cs = (c # a) @ seg @ b" by simp
      then show ?thesis by blast
    qed
  next
    case False
    with Cons.prems have "seg = c # hd (split_slash cs) \<or> seg \<in> set (tl (split_slash cs))"
      by (simp add: split_slash_rec)
    then show ?thesis
    proof
      assume s: "seg = c # hd (split_slash cs)"
      with False have "seg = takeWhile (\<lambda>c. c \<noteq> CHR ''/'') (c # cs)"
        by (simp add: hd_split_slash)
      then have "c # cs = [] @ seg @ dropWhile (\<lambda>c. c \<noteq> CHR ''/'') (c # cs)"
        by simp
      then show ?thesis by blast
    next
      assume "seg \<in> set (tl (split_slash cs))"
      then have "seg \<in> set (split_slash cs)" by (meson list.set_sel(2) split_slash_ne)
      from Cons.IH[OF this] obtain a b where "cs = a @ seg @ b" by blast
      then have "c # cs = (c # a) @ seg @ b" by simp
      then show ?thesis by blast
    qed
  qed
qed


lemma foldl_push_keep:
  "''..'' \<notin> set segs \<Longrightarrow> \<exists>T. foldl push_segment (S @ u # T0) segs = S @ u # T"
proof (induction segs arbitrary: T0)
  case Nil
  then show ?case by simp
next
  case (Cons seg rest)
  from Cons.prems have ns: "seg \<noteq> ''..''" and r: "''..'' \<notin> set rest" by auto
  from ns have "push_segment (S @ u # T0) seg = S @ u # T0 \<or> push_segment (S @ u # T0) seg = S @ u # (T0 @ [seg])"
    by (auto simp: push_segment_def)
  then show ?case
  proof
    assume "push_segment (S @ u # T0) seg = S @ u # T0"
    with Cons.IH[OF r, of T0] show ?thesis by simp
  next
    assume "push_segment (S @ u # T0) seg = S @ u # (T0 @ [seg])"
    with Cons.IH[OF r, of "T0 @ [seg]"] show ?thesis by simp
  qed
qed

lemma no_dotdot_segment:
  assumes "\<not> includes_str q ''..''"
  shows "''..'' \<notin> set (split_slash q)"
proof
  assume "''..'' \<in> set (split_slash q)"
  from segment_is_substring[OF this] assms show False
    by (simp add: includes_str_iff)
qed

lemma includes_str_drop: "includes_str (drop n s) sub \<Longrightarrow> includes_str s sub"
proof -
  assume "includes_str (drop n s) sub"
  then obtain a b where "drop n s = a @ sub @ b" by (auto simp: includes_str_iff)
  then have "s = (take n s @ a) @ sub @ b" by (metis append_assoc append_take_drop_id)
  then show ?thesis unfolding includes_str_iff by blast
qed

lemma split_slash_json:
  "split_slash (q @ ''.json'') = butlast (split_slash q) @ [last (split_slash q) @ ''.json'']"
  by (simp add: split_slash_append[of q "''.json''"] split_slash_no_slash)

lemma filePath_file_neq_metadata:
  assumes "\<not> includes_str p ''..''"
  shows "filePath (generateFileKey sid p) \<noteq> filePath (generateMetadataKey sid)"
proof -
  define q where "q = (if startsWith p ''/'' then drop 1 p else p)"
  have nq: "\<not> includes_str q ''..''"
    using assms includes_str_drop[of 1 p "''..''"] by (auto simp: q_def)
  define X where "X = STORAGE_DIR @ ''/'' @ ''site:'' @ sid"
  define xs where "xs = butlast (split_slash X)"
  define t where "t = last (split_slash X)"
  define S where "S = foldl push_segment [] xs"
  have fm: "STORAGE_DIR @ ''/'' @ generateMetadataKey sid @ ''.json'' = X @ '':metadata.json''"
    by (simp add: X_def generateMetadataKey_def)
  have ff: "STORAGE_DIR @ ''/'' @ generateFileKey sid p @ ''.json'' = X @ ('':file:'' @ q) @ ''.json''"
    by (simp add: X_def generateFileKey_def q_def)
  have sm: "split_slash (X @ '':metadata.json'') = xs @ [t @ '':metadata.json'']"
    by (simp add: split_slash_append[of X "'':metadata.json''"] split_slash_no_slash xs_def t_def)
  have "filePath (generateMetadataKey sid) = foldl push_segment [] (xs @ [t @ '':metadata.json''])"
    unfolding filePath_def path_join_def fm sm ..
  then have m: "filePath (generateMetadataKey sid) = S @ [t @ '':metadata.json'']"
    by (simp add: S_def push_segment_def)
  define h where "h = '':file:'' @ hd (split_slash (q @ ''.json''))"
  define rest where "rest = tl (split_slash (q @ ''.json''))"
  have "split_slash ('':file:'' @ q @ ''.json'')
          = ('':file:'' @ hd (split_slash (q @ ''.json''))) # tl (split_slash (q @ ''.json''))"
    by (simp add: split_slash_rec)
  then have sq: "split_slash (('':file:'' @ q) @ ''.json'') = h # rest"
    by (simp add: h_def rest_def)
  have sf: "split_slash (X @ ('':file:'' @ q) @ ''.json'') = xs @ (t @ h) # rest"
    using split_slash_append[of X "('':file:'' @ q) @ ''.json''"] sq
    by (simp add: xs_def t_def)
  have "''..'' \<notin> set (split_slash (q @ ''.json''))"
    using no_dotdot_segment[OF nq] by (auto simp: split_slash_json dest: in_set_butlastD)
  then have nr: "''..'' \<notin> set rest"
    unfolding rest_def by (meson list.set_sel(2) split_slash_ne)
  have th: "push_segment S (t @ h) = S @ [t @ h]"
    by (auto simp: push_segment_def h_def append_eq_Cons_conv)
  from foldl_push_keep[OF nr, of S "t @ h" "[]"] obtain T where
    T: "foldl push_segment (S @ [t @ h]) rest = S @ (t @ h) # T" by auto
  have "filePath (generateFileKey sid p) = foldl push_segment [] (xs @ (t @ h) # rest)"
    unfolding filePath_def path_join_def ff sf ..
  then have f: "filePath (generateFileKey sid p) = S @ (t @ h) # T"
    using th T by (simp add: S_def)
  have "t @ h \<noteq> t @ '':metadata.json''"
    by (simp add: h_def)
  with m f show ?thesis by simp
qed

section \<open>The store: effect of one write\<close>

text \<open>
  When \<open>createEntity\<close> throws: the nonce request or the raw transaction is not answered
  by a result (network error, HTTP status, RPC error), or signing throws. An error
  while it waits for the receipt is not thrown.
\<close>

lemma createEntity_throws_iff:
  "isl (fst (createEntity e rs)) \<longleftrightarrow>
     (case fetch rs of
        (RpcResult nonce, rs1) \<Rightarrow>
          (case signer e nonce of
             None \<Rightarrow> True
           | Some signedTx \<Rightarrow> (case fetch rs1 of (RpcResult txHash, rs2) \<Rightarrow> False | _ \<Rightarrow> True))
      | _ \<Rightarrow> True)"
  by (auto simp: createEntity_def getNonce_def split: prod.splits rpc_reply.splits option.splits)

lemma writeToGolemDB_frame:
  "mirror (snd (writeToGolemDB e w entry)) = mirror w"
  "disk (snd (writeToGolemDB e w entry)) = disk w"
  "dirs (snd (writeToGolemDB e w entry)) = dirs w"
  by (auto simp: writeToGolemDB_def split: prod.splits sum.splits)

lemma writeToGolemDB_failed:
  "fst (createEntity e (ledger w)) = Inl err \<Longrightarrow> fst (writeToGolemDB e w entry) = None"
  by (auto simp: writeToGolemDB_def split: prod.splits sum.splits)

lemma storeLocally_ok:
  "mirror_write_ok w k \<Longrightarrow> fst (storeLocally w k entry) = Inr () \<and>
     mirror (snd (storeLocally w k entry)) = (mirror w)(filePath k \<mapsto> entry)"
  by (auto simp: storeLocally_def mirror_write_ok_def Let_def split: list.splits)

lemma storeLocally_fail:
  "\<not> mirror_write_ok w k \<Longrightarrow> fst (storeLocally w k entry) = Inl (WriteFileFailed k) \<and>
     mirror (snd (storeLocally w k entry)) = mirror w"
  by (auto simp: storeLocally_def mirror_write_ok_def Let_def split: list.splits)

lemma storeLocally_frame:
  "dirs (snd (storeLocally w k entry)) = dirs w"
  "list_all (\<lambda>ok. ok) (disk w) \<Longrightarrow> list_all (\<lambda>ok. ok) (disk (snd (storeLocally w k entry)))"
  by (auto simp: storeLocally_def Let_def split: list.splits)

lemma mirror_write_ok_writeToGolemDB:
  "mirror_write_ok (snd (writeToGolemDB e w entry)) k = mirror_write_ok w k"
  by (simp add: mirror_write_ok_def writeToGolemDB_frame)

lemma storeFile_ok:
  assumes "mirror_write_ok w (generateFileKey sid (path file))"
  shows "fst (storeFile e now w sid file) =
           Inr (or_else (fst (writeToGolemDB e w (file_entry now sid file))) (generateFileKey sid (path file)))"
    and "mirror (snd (storeFile e now w sid file)) =
           (mirror w)(filePath (generateFileKey sid (path file)) \<mapsto> file_entry now sid file)"
proof -
  let ?k = "generateFileKey sid (path file)"
  obtain tx w1 where a: "writeToGolemDB e w (file_entry now sid file) = (tx, w1)"
    by (cases "writeToGolemDB e w (file_entry now sid file)")
  have ok1: "mirror_write_ok w1 ?k" and m1: "mirror w1 = mirror w"
    using assms mirror_write_ok_writeToGolemDB[of e w "file_entry now sid file" ?k]
      writeToGolemDB_frame(1)[of e w "file_entry now sid file"] a by simp_all
  obtain r w2 where b: "storeLocally w1 ?k (file_entry now sid file) = (r, w2)"
    by (cases "storeLocally w1 ?k (file_entry now sid file)")
  from storeLocally_ok[OF ok1, of "file_entry now sid file"] b m1
  have r: "r = Inr ()" and m2: "mirror w2 = (mirror w)(filePath ?k \<mapsto> file_entry now sid file)"
    by simp_all
  show "fst (storeFile e now w sid file) =
           Inr (or_else (fst (writeToGolemDB e w (file_entry now sid file))) ?k)"
    by (simp add: storeFile_def a b r)
  show "mirror (snd (storeFile e now w sid file)) =
           (mirror w)(filePath ?k \<mapsto> file_entry now sid file)"
    by (simp add: storeFile_def a b r m2)
qed

lemma storeFile_fail:
  assumes "\<not> mirror_write_ok w (generateFileKey sid (path file))"
  shows "fst (storeFile e now w sid file) = Inl (WriteFileFailed (generateFileKey sid (path file)))"
    and "mirror (snd (storeFile e now w sid file)) = mirror w"
proof -
  let ?k = "generateFileKey sid (path file)"
  obtain tx w1 where a: "writeToGolemDB e w (file_entry now sid file) = (tx, w1)"
    by (cases "writeToGolemDB e w (file_entry now sid file)")
  have ok1: "\<not> mirror_write_ok w1 ?k" and m1: "mirror w1 = mirror w"
    using assms mirror_write_ok_writeToGolemDB[of e w "file_entry now sid file" ?k]
      writeToGolemDB_frame(1)[of e w "file_entry now sid file"] a by simp_all
  obtain r w2 where b: "storeLocally w1 ?k (file_entry now sid file) = (r, w2)"
    by (cases "storeLocally w1 ?k (file_entry now sid file)")
  from storeLocally_fail[OF ok1, of "file_entry now sid file"] b m1
  have r: "r = Inl (WriteFileFailed ?k)" and m2: "mirror w2 = mirror w"
    by simp_all
  show "fst (storeFile e now w sid file) = Inl (WriteFileFailed ?k)"
    by (simp add: storeFile_def a b r)
  show "mirror (snd (storeFile e now w sid file)) = mirror w"
    by (simp add: storeFile_def a b r m2)
qed

lemma storeFile_frame:
  "dirs (snd (storeFile e now w sid file)) = dirs w"
  "list_all (\<lambda>ok. ok) (disk w) \<Longrightarrow> list_all (\<lambda>ok. ok) (disk (snd (storeFile e now w sid file)))"
proof -
  obtain tx w1 where a: "writeToGolemDB e w (file_entry now sid file) = (tx, w1)"
    by (cases "writeToGolemDB e w (file_entry now sid file)")
  from writeToGolemDB_frame(2,3)[of e w "file_entry now sid file"] a
  have f: "disk w1 = disk w" "dirs w1 = dirs w" by simp_all
  obtain r w2 where b: "storeLocally w1 (generateFileKey sid (path file)) (file_entry now sid file) = (r, w2)"
    by (cases "storeLocally w1 (generateFileKey sid (path file)) (file_entry now sid file)")
  from storeLocally_frame[of w1 "generateFileKey sid (path file)" "file_entry now sid file"] b f
  have g: "dirs w2 = dirs w"
    "list_all (\<lambda>ok. ok) (disk w) \<Longrightarrow> list_all (\<lambda>ok. ok) (disk w2)" by simp_all
  have s: "snd (storeFile e now w sid file) = w2"
    using a b by (cases r) (simp_all add: storeFile_def)
  show "dirs (snd (storeFile e now w sid file)) = dirs w" using g s by simp
  show "list_all (\<lambda>ok. ok) (disk w) \<Longrightarrow> list_all (\<lambda>ok. ok) (disk (snd (storeFile e now w sid file)))"
    using g s by simp
qed

lemma mirror_write_ok_all:
  "list_all (\<lambda>ok. ok) (disk w) \<Longrightarrow> butlast (filePath k) \<in> set (dirs w) \<Longrightarrow> mirror_write_ok w k"
  by (cases "disk w") (auto simp: mirror_write_ok_def)

section \<open>The store: a batch of writes\<close>

lemma store_files_mirror:
  "fst (store_files e now sid files w frs idx) = Inr x \<Longrightarrow>
   mirror (snd (store_files e now sid files w frs idx)) = write_files now sid files (mirror w)"
proof (induction files arbitrary: w frs idx)
  case Nil
  then show ?case by simp
next
  case (Cons f rest)
  obtain r w1 where sf: "storeFile e now w sid f = (r, w1)"
    by (cases "storeFile e now w sid f")
  show ?case
  proof (cases r)
    case (Inl err)
    with Cons.prems sf show ?thesis by simp
  next
    case (Inr tx)
    have ok: "mirror_write_ok w (generateFileKey sid (path f))"
    proof (rule ccontr)
      assume "\<not> mirror_write_ok w (generateFileKey sid (path f))"
      from storeFile_fail(1)[OF this, of e now] sf Inr show False by simp
    qed
    from storeFile_ok(2)[OF ok, of e now] sf
    have m1: "mirror w1 = (mirror w)(filePath (generateFileKey sid (path f)) \<mapsto> file_entry now sid f)"
      by simp
    from Cons.prems sf Inr
    have "mirror (snd (store_files e now sid (f # rest) w frs idx)) = write_files now sid rest (mirror w1)"
      using Cons.IH[of w1] by simp
    then show ?thesis by (simp only: m1 write_files.simps)
  qed
qed

lemma store_files_succeeds:
  "list_all (\<lambda>ok. ok) (disk w) \<Longrightarrow>
   list_all (\<lambda>f. butlast (filePath (generateFileKey sid (path f))) \<in> set (dirs w)) files \<Longrightarrow>
   (\<exists>x. fst (store_files e now sid files w frs idx) = Inr x) \<and>
   list_all (\<lambda>ok. ok) (disk (snd (store_files e now sid files w frs idx))) \<and>
   dirs (snd (store_files e now sid files w frs idx)) = dirs w"
proof (induction files arbitrary: w frs idx)
  case Nil
  then show ?case by simp
next
  case (Cons f rest)
  obtain r w1 where sf: "storeFile e now w sid f = (r, w1)"
    by (cases "storeFile e now w sid f")
  from Cons.prems have ok: "mirror_write_ok w (generateFileKey sid (path f))"
    by (simp add: mirror_write_ok_all)
  from storeFile_ok(1)[OF ok, of e now] sf
  obtain tx where r: "r = Inr tx" by simp
  from storeFile_frame(1)[of e now w sid f] storeFile_frame(2)[OF Cons.prems(1), of e now sid f] sf
  have w1: "list_all (\<lambda>ok. ok) (disk w1)" "dirs w1 = dirs w" by simp_all
  with Cons.prems
  have "list_all (\<lambda>f. butlast (filePath (generateFileKey sid (path f))) \<in> set (dirs w1)) rest"
    by simp
  from Cons.IH[OF w1(1) this] sf r w1(2) show ?case by simp
qed

lemma foldl_fsize: "foldl (\<lambda>sum f. sum + fsize f) a files = a + sum_list (map fsize files)"
  by (induction files arbitrary: a) auto

lemma write_files_other:
  "fp \<notin> (\<lambda>f. filePath (generateFileKey sid (path f))) ` set files \<Longrightarrow>
   write_files now sid files m fp = m fp"
  by (induction files arbitrary: m) auto

lemma write_files_append:
  "write_files now sid (xs @ ys) m = write_files now sid ys (write_files now sid xs m)"
  by (induction xs arbitrary: m) auto

lemma write_files_last:
  assumes "filePath (generateFileKey sid (path f))
             \<notin> (\<lambda>g. filePath (generateFileKey sid (path g))) ` set post"
  shows "write_files now sid (pre @ f # post) m (filePath (generateFileKey sid (path f)))
           = Some (file_entry now sid f)"
  using assms by (simp add: write_files_append write_files_other)

lemma not_expired_fresh:
  "now' div 1000 \<le> now div 1000 + thirty_days \<Longrightarrow>
   btl entry = int (now div 1000 + thirty_days) \<Longrightarrow> \<not> isExpired now' entry"
  by (simp add: isExpired_def)

lemma storeSite_mirror:
  assumes "fst (storeSite e now w sid files) = Inr r"
  shows "mirror (snd (storeSite e now w sid files)) =
           (write_files now sid files (mirror w))
             (filePath (generateMetadataKey sid) \<mapsto>
                metadata_entry e now sid (site_metadata_of now sid files))"
    and "s_metadata r = site_metadata_of now sid files"
proof -
  obtain x w1 where a: "store_files e now sid files w [] None = (x, w1)"
    by (cases "store_files e now sid files w [] None")
  from assms a obtain frs idx where x: "x = Inr (frs, idx)"
    by (cases x) (auto simp: storeSite_def)
  from store_files_mirror[of e now sid files w "[]" None "(frs, idx)"] a x
  have m1: "mirror w1 = write_files now sid files (mirror w)" by simp
  let ?me = "metadata_entry e now sid (site_metadata_of now sid files)"
  obtain tx w2 where b: "writeToGolemDB e w1 ?me = (tx, w2)"
    by (cases "writeToGolemDB e w1 ?me")
  from writeToGolemDB_frame[of e w1 ?me] b
  have m2: "mirror w2 = mirror w1" by simp
  obtain y w3 where c: "storeLocally w2 (generateMetadataKey sid) ?me = (y, w3)"
    by (cases "storeLocally w2 (generateMetadataKey sid) ?me")
  from assms a x b c have y: "y = Inr ()"
    and r: "r = \<lparr>s_metadata = site_metadata_of now sid files, s_files = frs, s_indexTxHash = idx\<rparr>"
    by (auto simp: storeSite_def Let_def split: sum.splits)
  have ok: "mirror_write_ok w2 (generateMetadataKey sid)"
  proof (rule ccontr)
    assume "\<not> mirror_write_ok w2 (generateMetadataKey sid)"
    from storeLocally_fail[OF this, of ?me] c y show False by simp
  qed
  from storeLocally_ok[OF ok, of ?me] c
  have m3: "mirror w3 = (mirror w2)(filePath (generateMetadataKey sid) \<mapsto> ?me)" by simp
  show "mirror (snd (storeSite e now w sid files)) =
           (write_files now sid files (mirror w))(filePath (generateMetadataKey sid) \<mapsto> ?me)"
    using a x b c y m1 m2 m3 by (simp add: storeSite_def Let_def)
  show "s_metadata r = site_metadata_of now sid files" using r by simp
qed

text \<open>
  \<open>storeSite\<close> returns normally when the disk takes every write and the directory of
  every file it writes exists.
\<close>

lemma storeSite_succeeds:
  assumes "list_all (\<lambda>ok. ok) (disk w)"
    and "list_all (\<lambda>f. butlast (filePath (generateFileKey sid (path f))) \<in> set (dirs w)) files"
    and "butlast (filePath (generateMetadataKey sid)) \<in> set (dirs w)"
  shows "\<exists>r. fst (storeSite e now w sid files) = Inr r"
proof -
  obtain x w1 where a: "store_files e now sid files w [] None = (x, w1)"
    by (cases "store_files e now sid files w [] None")
  from store_files_succeeds[OF assms(1,2), of e now "[]" None] a
  obtain frs idx where x: "x = Inr (frs, idx)" and d1: "list_all (\<lambda>ok. ok) (disk w1)"
    and dd: "dirs w1 = dirs w"
    by auto
  let ?me = "metadata_entry e now sid (site_metadata_of now sid files)"
  obtain tx w2 where b: "writeToGolemDB e w1 ?me = (tx, w2)"
    by (cases "writeToGolemDB e w1 ?me")
  from writeToGolemDB_frame(2,3)[of e w1 ?me] b d1 dd assms(3)
  have "list_all (\<lambda>ok. ok) (disk w2)" "butlast (filePath (generateMetadataKey sid)) \<in> set (dirs w2)"
    by simp_all
  from storeLocally_ok[OF mirror_write_ok_all[OF this], of ?me]
  obtain w3 where c: "storeLocally w2 (generateMetadataKey sid) ?me = (Inr (), w3)"
    by (cases "storeLocally w2 (generateMetadataKey sid) ?me") auto
  show ?thesis using a x b c by (simp add: storeSite_def Let_def)
qed

lemma getSiteMetadata_after_storeSite:
  assumes "fst (storeSite e now w sid files) = Inr r"
    and "now' div 1000 \<le> now div 1000 + thirty_days"
  shows "getSiteMetadata e now' (snd (storeSite e now w sid files)) sid
           = Some (site_metadata_of now sid files)"
  using storeSite_mirror(1)[OF assms(1)]
    not_expired_fresh[OF assms(2), of "metadata_entry e now sid (site_metadata_of now sid files)"]
  by (simp add: getSiteMetadata_def readLocally_def metadata_entry_def)

lemma getFile_after_storeSite:
  assumes "fst (storeSite e now w sid (pre @ f # post)) = Inr r"
    and "filePath (generateFileKey sid (path f))
           \<notin> (\<lambda>g. filePath (generateFileKey sid (path g))) ` set post"
    and "now' div 1000 \<le> now div 1000 + thirty_days"
    and "\<not> includes_str (path f) ''..''"
  shows "getFile e now' (snd (storeSite e now w sid (pre @ f # post))) sid (path f) =
           Some \<lparr>path = path f, content = content f, contentType = contentType f,
                 fsize = fsize f, lastModified = lastModified f\<rparr>"
proof -
  have "mirror (snd (storeSite e now w sid (pre @ f # post))) (filePath (generateFileKey sid (path f)))
          = Some (file_entry now sid f)"
    using storeSite_mirror(1)[OF assms(1)] write_files_last[OF assms(2), of now pre "mirror w"]
      filePath_file_neq_metadata[OF assms(4), of sid]
    by simp
  with not_expired_fresh[OF assms(3), of "file_entry now sid f"]
  show ?thesis by (simp add: getFile_def readLocally_def file_entry_def)
qed

lemma getFile_after_storeFile:
  assumes "mirror_write_ok w (generateFileKey sid (path f))"
    and "now' div 1000 \<le> now div 1000 + thirty_days"
  shows "getFile e now' (snd (storeFile e now w sid f)) sid (path f) =
           Some \<lparr>path = path f, content = content f, contentType = contentType f,
                 fsize = fsize f, lastModified = lastModified f\<rparr>"
  using storeFile_ok(2)[OF assms(1), of e now]
    not_expired_fresh[OF assms(2), of "file_entry now sid f"]
  by (simp add: getFile_def readLocally_def file_entry_def)

section \<open>The uploader: validation\<close>

lemma processFile_Inr:
  "processFile e now fd = Inr f \<Longrightarrow>
     path f = normalize_path (fst fd) \<and> content f = Bytes (snd fd) \<and>
     contentType f = content_type_of e (normalize_path (fst fd)) \<and>
     fsize f = int (length (snd fd)) \<and> lastModified f = now"
  by (auto simp: processFile_def Let_def split: if_splits)

lemma processFile_Inr_path:
  "processFile e now fd = Inr f \<Longrightarrow> \<not> includes_str (path f) ''..''"
  by (auto simp: processFile_def Let_def split: if_splits)


lemma process_site_files_Inr:
  "process_site_files e now files acc tot = Inr (sf, t) \<Longrightarrow>
   \<exists>new. sf = acc @ new \<and> list_all2 (\<lambda>fd f. processFile e now fd = Inr f) files new \<and>
         t = tot + sum_list (map fsize new)"
proof (induction files arbitrary: acc tot)
  case Nil
  then show ?case by simp
next
  case (Cons fd rest)
  from Cons.prems obtain f where pf: "processFile e now fd = Inr f"
    by (cases "processFile e now fd") auto
  from Cons.prems pf have rec: "process_site_files e now rest (acc @ [f]) (tot + fsize f) = Inr (sf, t)"
    by (auto simp: Let_def split: if_splits)
  from Cons.IH[OF rec] obtain new where
    n: "sf = (acc @ [f]) @ new" "list_all2 (\<lambda>fd f. processFile e now fd = Inr f) rest new"
       "t = tot + fsize f + sum_list (map fsize new)" by auto
  show ?case
    by (rule exI[of _ "f # new"]) (use n pf in simp)
qed

lemma processed_sizes:
  "list_all2 (\<lambda>fd f. processFile e now fd = Inr f) files new \<Longrightarrow>
   length new = length files \<and> sum_list (map fsize new) = (\<Sum>fd\<leftarrow>files. int (length (snd fd)))"
  by (induction files new rule: list_all2_induct) (auto dest: processFile_Inr)

lemma processed_paths:
  "list_all2 (\<lambda>fd f. processFile e now fd = Inr f) files new \<Longrightarrow>
   map path new = map (\<lambda>fd. normalize_path (fst fd)) files"
  by (induction files new rule: list_all2_induct) (auto dest: processFile_Inr)

lemma processed_no_dotdot:
  "list_all2 (\<lambda>fd f. processFile e now fd = Inr f) files new \<Longrightarrow>
   list_all (\<lambda>f. \<not> includes_str (path f) ''..'') new"
  by (induction files new rule: list_all2_induct) (auto dest: processFile_Inr_path)





lemma validateSiteStructure_denies:
  "list_ex suspicious fs \<or> list_ex hidden_not_allowed fs \<Longrightarrow> isl (validateSiteStructure fs)"
  by (auto simp: validateSiteStructure_def Let_def find_None_iff list_ex_iff split: option.splits)

text \<open>
  \<open>uploadSite\<close> applies the extension list and the hidden-file rule to every file of the
  batch before it writes.
\<close>

lemma uploadSite_applies_denylist:
  assumes "process_site_files e now files [] 0 = Inr (siteFiles, t)"
    and "list_ex suspicious siteFiles \<or> list_ex hidden_not_allowed siteFiles"
  shows "isl (fst (uploadSite e now w sid files)) \<and> snd (uploadSite e now w sid files) = w"
proof -
  from validateSiteStructure_denies[OF assms(2)]
  obtain err where "validateSiteStructure siteFiles = Inl err"
    by (cases "validateSiteStructure siteFiles") auto
  with assms(1) show ?thesis
    by (simp add: uploadSite_def split: option.splits)
qed


lemma subtract_replaced:
  "(case getFile e now w sid p of None \<Rightarrow> tot | Some existingFile \<Rightarrow> tot - fsize existingFile)
     = tot - replaced_size e now w sid p"
  by (simp add: replaced_size_def split: option.splits)

lemma process_added_files_Inr:
  "process_added_files e now w sid files acc tot = Inr (sf, t) \<Longrightarrow>
   \<exists>new. sf = acc @ new \<and> list_all2 (\<lambda>fd f. processFile e now fd = Inr f) files new \<and>
         t = tot + (\<Sum>fd\<leftarrow>files. int (length (snd fd)) - replaced_size e now w sid (normalize_path (fst fd)))"
proof (induction files arbitrary: acc tot)
  case Nil
  then show ?case by simp
next
  case (Cons fd rest)
  from Cons.prems obtain f where pf: "processFile e now fd = Inr f"
    by (cases "processFile e now fd") auto
  note v = processFile_Inr[OF pf]
  let ?t2 = "tot - replaced_size e now w sid (path f) + fsize f"
  from Cons.prems pf have rec: "process_added_files e now w sid rest (acc @ [f]) ?t2 = Inr (sf, t)"
    by (simp add: Let_def subtract_replaced split: if_splits)
  from Cons.IH[OF rec] obtain new where
    n: "sf = (acc @ [f]) @ new" "list_all2 (\<lambda>fd f. processFile e now fd = Inr f) rest new"
       "t = ?t2 + (\<Sum>fd\<leftarrow>rest. int (length (snd fd)) - replaced_size e now w sid (normalize_path (fst fd)))"
    by auto
  show ?case
    by (rule exI[of _ "f # new"]) (use n pf v in simp)
qed



lemma storeFile_mirror_cases:
  "mirror (snd (storeFile e now w sid f)) = mirror w \<or>
   mirror (snd (storeFile e now w sid f))
     = (mirror w)(filePath (generateFileKey sid (path f)) \<mapsto> file_entry now sid f)"
  using storeFile_ok(2)[of w sid f e now] storeFile_fail(2)[of w sid f e now] by blast

lemma store_added_mirror_other:
  "fp \<notin> (\<lambda>f. filePath (generateFileKey sid (path f))) ` set files \<Longrightarrow>
   mirror (snd (store_added e now sid files w keys)) fp = mirror w fp"
proof (induction files arbitrary: w keys)
  case Nil
  then show ?case by simp
next
  case (Cons f rest)
  obtain r w1 where sf: "storeFile e now w sid f = (r, w1)"
    by (cases "storeFile e now w sid f")
  from storeFile_mirror_cases[of e now w sid f] sf Cons.prems
  have m1: "mirror w1 fp = mirror w fp" by auto
  show ?case
  proof (cases r)
    case (Inl err)
    with sf m1 show ?thesis by simp
  next
    case (Inr tx)
    from Cons.prems have "fp \<notin> (\<lambda>f. filePath (generateFileKey sid (path f))) ` set rest" by simp
    from Cons.IH[OF this, of w1] sf Inr m1 show ?thesis by simp
  qed
qed


text \<open>
  \<open>uploadFiles\<close> writes entry files of the batch only, and none of them is the metadata
  file of the site.
\<close>

lemma uploadFiles_mirror_other:
  assumes "fp \<notin> (\<lambda>fd. filePath (generateFileKey sid (normalize_path (fst fd)))) ` set files"
  shows "mirror (snd (uploadFiles e now w sid files)) fp = mirror w fp"
proof (cases "getSiteMetadata e now w sid")
  case None
  then show ?thesis by (simp add: uploadFiles_def)
next
  case (Some metadata)
  show ?thesis
  proof (cases "process_added_files e now w sid files [] (totalSize metadata)")
    case (Inl err)
    with Some show ?thesis by (simp add: uploadFiles_def)
  next
    case (Inr res)
    obtain sf t where res: "res = (sf, t)" by (cases res)
    from process_added_files_Inr[of e now w sid files "[]" "totalSize metadata" sf t] Inr res
    have "list_all2 (\<lambda>fd f. processFile e now fd = Inr f) files sf" by auto
    from processed_paths[OF this]
    have a: "map path sf = map (\<lambda>fd. normalize_path (fst fd)) files" .
    have "(\<lambda>f. filePath (generateFileKey sid (path f))) ` set sf
            = (\<lambda>p. filePath (generateFileKey sid p)) ` set (map path sf)"
      by auto
    also have "\<dots> = (\<lambda>p. filePath (generateFileKey sid p)) ` set (map (\<lambda>fd. normalize_path (fst fd)) files)"
      by (simp only: a)
    also have "\<dots> = (\<lambda>fd. filePath (generateFileKey sid (normalize_path (fst fd)))) ` set files"
      by auto
    finally have nk: "fp \<notin> (\<lambda>f. filePath (generateFileKey sid (path f))) ` set sf"
      using assms by simp
    from store_added_mirror_other[OF nk, of e now w "[]"]
    have m: "mirror (snd (store_added e now sid sf w [])) fp = mirror w fp" .
    show ?thesis
      using Some Inr res m
      by (cases "store_added e now sid sf w []")
         (auto simp: uploadFiles_def split: sum.splits)
  qed
qed

lemma uploadFiles_metadata_file:
  "mirror (snd (uploadFiles e now w sid files)) (filePath (generateMetadataKey sid))
     = mirror w (filePath (generateMetadataKey sid))"
proof (cases "getSiteMetadata e now w sid")
  case None
  then show ?thesis by (simp add: uploadFiles_def)
next
  case (Some metadata)
  show ?thesis
  proof (cases "process_added_files e now w sid files [] (totalSize metadata)")
    case (Inl err)
    with Some show ?thesis by (simp add: uploadFiles_def)
  next
    case (Inr res)
    obtain sf t where res: "res = (sf, t)" by (cases res)
    from process_added_files_Inr[of e now w sid files "[]" "totalSize metadata" sf t] Inr res
    have l: "list_all2 (\<lambda>fd f. processFile e now fd = Inr f) files sf" by auto
    have nk: "filePath (generateMetadataKey sid)
                \<notin> (\<lambda>f. filePath (generateFileKey sid (path f))) ` set sf"
    proof
      assume "filePath (generateMetadataKey sid)
                \<in> (\<lambda>f. filePath (generateFileKey sid (path f))) ` set sf"
      then obtain f where f: "f \<in> set sf"
        "filePath (generateMetadataKey sid) = filePath (generateFileKey sid (path f))"
        by auto
      from processed_no_dotdot[OF l] f(1) have "\<not> includes_str (path f) ''..''"
        by (simp add: list_all_iff)
      from filePath_file_neq_metadata[OF this, of sid] f(2) show False by simp
    qed
    from store_added_mirror_other[OF nk, of e now w "[]"]
    have m: "mirror (snd (store_added e now sid sf w [])) (filePath (generateMetadataKey sid))
               = mirror w (filePath (generateMetadataKey sid))" .
    show ?thesis
      using Some Inr res m
      by (cases "store_added e now sid sf w []")
         (auto simp: uploadFiles_def split: sum.splits)
  qed
qed

section \<open>The example store\<close>

lemma storage_dir_segments:
  "foldl push_segment [] (split_slash STORAGE_DIR) = [''tmp'', ''webdb-storage'']"
  by (simp add: STORAGE_DIR_def split_slash_def push_segment_def)

lemma empty_world_eval:
  "empty_world =
     \<lparr>mirror = Map.empty, dirs = [[], [''tmp''], [''tmp'', ''webdb-storage'']],
      ledger = [], disk = []\<rparr>"
  by (simp add: empty_world_def ensureStorageDir_def storage_dir_segments)

text \<open>The file of a key without a slash lies in the storage directory.\<close>

lemma filePath_flat:
  assumes "CHR ''/'' \<notin> set k"
  shows "filePath k = [''tmp'', ''webdb-storage'', k @ ''.json'']"
proof -
  have a: "split_slash (k @ ''.json'') = [k @ ''.json'']"
    using assms by (simp add: split_slash_no_slash)
  have b: "split_slash (''/'' @ k @ ''.json'') = [[], k @ ''.json'']"
    using a by (simp add: split_slash_rec)
  have c: "split_slash STORAGE_DIR = [[], ''tmp'', ''webdb-storage'']"
    by (simp add: STORAGE_DIR_def split_slash_def)
  have d: "split_slash (STORAGE_DIR @ ''/'' @ k @ ''.json'')
             = [[], ''tmp'', ''webdb-storage'', k @ ''.json'']"
    unfolding split_slash_append[of STORAGE_DIR "''/'' @ k @ ''.json''"] b c by simp
  have n: "k @ ''.json'' \<noteq> []" "k @ ''.json'' \<noteq> ''.''" "k @ ''.json'' \<noteq> ''..''"
    by (auto simp: append_eq_Cons_conv)
  show ?thesis
    unfolding filePath_def path_join_def d using n by (simp add: push_segment_def)
qed

lemma blog_world_eval:
  "blog_world =
     \<lparr>mirror = [[''tmp'', ''webdb-storage'', ''site:blog:file:index.html.json'']
                   \<mapsto> file_entry 1000 ''blog'' index_file,
                [''tmp'', ''webdb-storage'', ''site:blog:file:notes.txt.json''] \<mapsto>
                   file_entry 1000 ''blog''
                     \<lparr>path = ''notes.txt'', content = Bytes [0x6E, 0x6F, 0x74, 0x65, 0x73, 0x0A],
                      contentType = ''application/octet-stream'', fsize = 6, lastModified = 1000\<rparr>,
                [''tmp'', ''webdb-storage'', ''site:blog:metadata.json''] \<mapsto>
                   metadata_entry example_env 1000 ''blog''
                     \<lparr>siteId = ''blog'', name = ''blog'', domain = ''blog.webdb.site'',
                      totalSize = 10, fileCount = Suc (Suc 0), createdAt = 1000, btlExpiry = 2592001000\<rparr>],
      dirs = [[], [''tmp''], [''tmp'', ''webdb-storage'']],
      ledger = [], disk = []\<rparr>"
  by (simp add: blog_world_def notes_txt_def eval_defs)

text \<open>
  With a ledger that answers (nonce, transaction hash, receipt), \<open>storeFile\<close> returns
  the transaction hash.
\<close>

lemma waitForTransaction_receipt:
  "truthy v \<Longrightarrow> waitForTransaction (Suc left) (RpcResult v # rs) = (v, rs)"
  by (simp add: fetch_def)

lemma storeFile_ledger_reference_example:
  "fst (storeFile example_env 1000
          (empty_world\<lparr>ledger := [RpcResult (Some ''0x5''), RpcResult (Some ''0xabc''),
                                    RpcResult (Some ''receipt'')]\<rparr>)
          ''blog'' index_file) = Inr ''0xabc''"
proof -
  have "waitForTransaction (Suc 9) [RpcResult (Some ''receipt'')] = (Some ''receipt'', [])"
    by (rule waitForTransaction_receipt) (simp add: truthy_def)
  then have w: "waitForTransaction 10 [RpcResult (Some ''receipt'')] = (Some ''receipt'', [])"
    by simp
  show ?thesis by (simp add: eval_defs w)
qed

text \<open>
  Two site ids can name the same mirror files: \<open>join\<close> cancels the segment before a
  \<open>..\<close>, and \<open>uploadFiles\<close> does not check the site id. A file added under the id
  \<open>x/../site:blog\<close> replaces the file \<open>notes.txt\<close> of the site \<open>blog\<close>.
\<close>

lemma uploadFiles_site_id_alias_example:
  "filePath (generateFileKey ''x/../site:blog'' ''notes.txt'')
     = filePath (generateFileKey ''blog'' ''notes.txt'')
   \<and> \<not> isl (fst (uploadFiles example_env 2000 blog_world ''x/../site:blog'' [short_notes_txt]))
   \<and> map_option content
        (getFile example_env 3000
           (snd (uploadFiles example_env 2000 blog_world ''x/../site:blog'' [short_notes_txt]))
           ''blog'' ''notes.txt'') = Some (Bytes [0x6E, 0x0A])"
  by (simp add: blog_world_eval eval_defs short_notes_txt_def)

section \<open>The store: what \<open>storeSite\<close> records\<close>

text \<open>
  The metadata that \<open>storeSite\<close> records: whenever it returns normally for the files that
  the loop of \<open>uploadSite\<close> made of a batch, \<open>getSiteMetadata\<close>, read while the metadata
  entry has not expired, gives the number of files of the batch and the sum of their byte
  lengths.
\<close>

lemma storeSite_records_counts:
  assumes "process_site_files e now files [] 0 = Inr (siteFiles, t)"
    and "fst (storeSite e now w sid siteFiles) = Inr r"
    and "now' div 1000 \<le> now div 1000 + thirty_days"
  shows "map_option fileCount (getSiteMetadata e now' (snd (storeSite e now w sid siteFiles)) sid)
           = Some (length files)
       \<and> map_option totalSize (getSiteMetadata e now' (snd (storeSite e now w sid siteFiles)) sid)
           = Some (\<Sum>fd\<leftarrow>files. int (length (snd fd)))"
proof -
  from process_site_files_Inr[OF assms(1)]
  have l: "list_all2 (\<lambda>fd f. processFile e now fd = Inr f) files siteFiles" by auto
  from processed_sizes[OF l] have
    sz: "length siteFiles = length files"
        "sum_list (map fsize siteFiles) = (\<Sum>fd\<leftarrow>files. int (length (snd fd)))"
    by simp_all
  show ?thesis
    using getSiteMetadata_after_storeSite[OF assms(2,3)] sz
    by (simp add: site_metadata_of_def foldl_fsize)
qed

text \<open>A batch of files without a slash in their paths is written when the disk takes every write.\<close>

lemma storeSite_flat_succeeds:
  assumes "list_all (\<lambda>ok. ok) (disk w)"
    and "[''tmp'', ''webdb-storage''] \<in> set (dirs w)"
    and "CHR ''/'' \<notin> set sid"
    and "list_all (\<lambda>f. CHR ''/'' \<notin> set (path f)) files"
  shows "\<exists>r. fst (storeSite e now w sid files) = Inr r"
proof (rule storeSite_succeeds[OF assms(1)])
  show "butlast (filePath (generateMetadataKey sid)) \<in> set (dirs w)"
    using assms(2,3) by (simp add: filePath_flat generateMetadataKey_def)
  have "\<And>f. f \<in> set files \<Longrightarrow> CHR ''/'' \<notin> set (generateFileKey sid (path f))"
    using assms(3,4) by (auto simp: generateFileKey_def list_all_iff dest: in_set_dropD)
  then show "list_all (\<lambda>f. butlast (filePath (generateFileKey sid (path f))) \<in> set (dirs w)) files"
    using assms(2) by (simp add: list_all_iff filePath_flat)
qed

section \<open>The claims\<close>

text \<open>
  C1. When the ledger write fails, that is when \<open>createEntity\<close> throws (the nonce request
  or the raw transaction meets a network error, a bad HTTP status or an RPC error, or
  signing throws), \<open>storeFile\<close> catches it: if the mirror write succeeds it returns
  normally, the entry is in the mirror under the file's key, and the value returned is
  that storage key, so no ledger reference. With the ledger down \<open>storeFile\<close> throws
  only when the mirror write itself fails.
\<close>

theorem C1_storeFile_survives_ledger_failure:
  assumes "fst (createEntity e (ledger w)) = Inl err"
  shows "(mirror_write_ok w (generateFileKey sid (path file)) \<longrightarrow>
            fst (storeFile e now w sid file) = Inr (generateFileKey sid (path file))
          \<and> readLocally (snd (storeFile e now w sid file)) (generateFileKey sid (path file))
              = Some (file_entry now sid file))
       \<and> (\<not> mirror_write_ok w (generateFileKey sid (path file)) \<longrightarrow>
            fst (storeFile e now w sid file) = Inl (WriteFileFailed (generateFileKey sid (path file))))"
  using writeToGolemDB_failed[OF assms, of "file_entry now sid file"]
  by (simp add: storeFile_ok storeFile_fail readLocally_def or_else_def)

theorem C1_witness:
  "fst (createEntity example_env (ledger empty_world)) = Inl NetworkError
   \<and> mirror_write_ok empty_world ''site:blog:file:index.html''
   \<and> fst (storeFile example_env 1000 empty_world ''blog'' index_file) = Inr ''site:blog:file:index.html''
   \<and> readLocally (snd (storeFile example_env 1000 empty_world ''blog'' index_file))
        ''site:blog:file:index.html'' = Some (file_entry 1000 ''blog'' index_file)"
proof -
  have h: "fst (createEntity example_env (ledger empty_world)) = Inl NetworkError"
    by (simp add: eval_defs)
  have k: "generateFileKey ''blog'' (path index_file) = ''site:blog:file:index.html''"
    by (simp add: eval_defs)
  have d: "mirror_write_ok empty_world ''site:blog:file:index.html''"
    by (simp add: empty_world_eval mirror_write_ok_def filePath_flat)
  from C1_storeFile_survives_ledger_failure[OF h, of "''blog''" index_file 1000] d k h
  show ?thesis by simp
qed




text \<open>
  C3, as amended. When \<open>getSiteMetadata\<close> finds the site (its metadata entry exists and
  has not expired), \<open>uploadSite\<close> throws and leaves the store as it was; when the request
  passes the schema, the error is "Site already exists". The check is made by
  \<open>uploadSite\<close>. (\<open>FileStorage.storeSite\<close> makes no such check, see the counterexample.)
\<close>

theorem C3_uploadSite_rejects_existing_site:
  assumes "getSiteMetadata e now w sid = Some existingMetadata"
  shows "isl (fst (uploadSite e now w sid files))
       \<and> snd (uploadSite e now w sid files) = w
       \<and> getSiteMetadata e t (snd (uploadSite e now w sid files)) sid = getSiteMetadata e t w sid
       \<and> (uploadSchema sid files \<longrightarrow>
            fst (uploadSite e now w sid files) = Inl (SiteAlreadyExists sid))"
  using assms by (simp add: uploadSite_def)

theorem C3_witness:
  "map_option fileCount (getSiteMetadata example_env 2000 blog_world ''blog'') = Some 2
   \<and> uploadSchema ''blog'' [index_html]
   \<and> fst (uploadSite example_env 2000 blog_world ''blog'' [index_html]) = Inl (SiteAlreadyExists ''blog'')
   \<and> snd (uploadSite example_env 2000 blog_world ''blog'' [index_html]) = blog_world"
proof -
  have m: "getSiteMetadata example_env 2000 blog_world ''blog'' =
             Some \<lparr>siteId = ''blog'', name = ''blog'', domain = ''blog.webdb.site'',
                   totalSize = 10, fileCount = 2, createdAt = 1000, btlExpiry = 2592001000\<rparr>"
    by (simp add: blog_world_eval eval_defs)
  have s: "uploadSchema ''blog'' [index_html]"
    by (simp add: eval_defs)
  from C3_uploadSite_rejects_existing_site[OF m, of "[index_html]" 2000] m s
  show ?thesis by simp
qed

text \<open>
  The claim as stated fails for \<open>storeSite\<close>: on the store that holds the unexpired site
  \<open>blog\<close> (two files, created at 1000) a second \<open>storeSite\<close> for \<open>blog\<close> returns
  normally and replaces the metadata entry (one file, created at 2000).
\<close>

theorem C3_counterexample:
  "map_option fileCount (getSiteMetadata example_env 2000 blog_world ''blog'') = Some 2
   \<and> map_option createdAt (getSiteMetadata example_env 2000 blog_world ''blog'') = Some 1000
   \<and> \<not> isl (fst (storeSite example_env 2000 blog_world ''blog'' [index_file]))
   \<and> map_option fileCount
        (getSiteMetadata example_env 2000
           (snd (storeSite example_env 2000 blog_world ''blog'' [index_file])) ''blog'') = Some 1
   \<and> map_option createdAt
        (getSiteMetadata example_env 2000
           (snd (storeSite example_env 2000 blog_world ''blog'' [index_file])) ''blog'') = Some 2000"
  by (simp add: blog_world_eval eval_defs)

text \<open>
  C4. Round trip. A file that \<open>processFile\<close> accepts and \<open>storeFile\<close> writes (the mirror
  write succeeds) is read back by \<open>getFile\<close> under its normalised path for as long as the
  entry has not expired: the content is the bytes that were submitted, and the content
  type is the one that \<open>processFile\<close> derived from the path (\<open>lookup(path)\<close>, or
  \<open>application/octet-stream\<close>). The same holds after a \<open>storeSite\<close> that returns
  normally, for a file of the batch whose mirror file no later file of the batch writes
  again.
\<close>

theorem C4_round_trip:
  assumes "processFile e now fd = Inr f"
    and "now' div 1000 \<le> now div 1000 + thirty_days"
  shows "(mirror_write_ok w (generateFileKey sid (path f)) \<longrightarrow>
            getFile e now' (snd (storeFile e now w sid f)) sid (path f) =
              Some \<lparr>path = normalize_path (fst fd), content = Bytes (snd fd),
                    contentType = content_type_of e (normalize_path (fst fd)),
                    fsize = int (length (snd fd)), lastModified = now\<rparr>)
       \<and> (\<not> isl (fst (storeSite e now w sid (pre @ f # post)))
          \<and> filePath (generateFileKey sid (path f))
              \<notin> (\<lambda>g. filePath (generateFileKey sid (path g))) ` set post \<longrightarrow>
            getFile e now' (snd (storeSite e now w sid (pre @ f # post))) sid (path f) =
              Some \<lparr>path = normalize_path (fst fd), content = Bytes (snd fd),
                    contentType = content_type_of e (normalize_path (fst fd)),
                    fsize = int (length (snd fd)), lastModified = now\<rparr>)"
proof (intro conjI impI)
  assume "mirror_write_ok w (generateFileKey sid (path f))"
  from getFile_after_storeFile[OF this assms(2), of e] processFile_Inr[OF assms(1)]
  show "getFile e now' (snd (storeFile e now w sid f)) sid (path f) =
              Some \<lparr>path = normalize_path (fst fd), content = Bytes (snd fd),
                    contentType = content_type_of e (normalize_path (fst fd)),
                    fsize = int (length (snd fd)), lastModified = now\<rparr>"
    by simp
next
  assume a: "\<not> isl (fst (storeSite e now w sid (pre @ f # post)))
          \<and> filePath (generateFileKey sid (path f))
              \<notin> (\<lambda>g. filePath (generateFileKey sid (path g))) ` set post"
  then obtain r where r: "fst (storeSite e now w sid (pre @ f # post)) = Inr r"
    by (cases "fst (storeSite e now w sid (pre @ f # post))") auto
  from a have n: "filePath (generateFileKey sid (path f))
              \<notin> (\<lambda>g. filePath (generateFileKey sid (path g))) ` set post" by simp
  from getFile_after_storeSite[OF r n assms(2) processFile_Inr_path[OF assms(1)]]
    processFile_Inr[OF assms(1)]
  show "getFile e now' (snd (storeSite e now w sid (pre @ f # post))) sid (path f) =
              Some \<lparr>path = normalize_path (fst fd), content = Bytes (snd fd),
                    contentType = content_type_of e (normalize_path (fst fd)),
                    fsize = int (length (snd fd)), lastModified = now\<rparr>"
    by simp
qed

theorem C4_witness:
  "processFile example_env 1000 index_html = Inr index_file
   \<and> (5000::nat) div 1000 \<le> 1000 div 1000 + thirty_days
   \<and> mirror_write_ok empty_world ''site:blog:file:index.html''
   \<and> getFile example_env 5000 (snd (storeFile example_env 1000 empty_world ''blog'' index_file))
        ''blog'' ''index.html''
       = Some \<lparr>path = ''index.html'', content = Bytes [0x3C, 0x68, 0x31, 0x3E],
               contentType = ''text/html'', fsize = 4, lastModified = 1000\<rparr>
   \<and> \<not> isl (fst (storeSite example_env 1000 empty_world ''blog'' [index_file, notes_file]))
   \<and> getFile example_env 5000
        (snd (storeSite example_env 1000 empty_world ''blog'' [index_file, notes_file]))
        ''blog'' ''index.html''
       = Some \<lparr>path = ''index.html'', content = Bytes [0x3C, 0x68, 0x31, 0x3E],
               contentType = ''text/html'', fsize = 4, lastModified = 1000\<rparr>"
proof -
  have p: "processFile example_env 1000 index_html = Inr index_file"
    by (simp add: eval_defs)
  have t: "(5000::nat) div 1000 \<le> 1000 div 1000 + thirty_days"
    by (simp add: thirty_days_def)
  have kk: "generateFileKey ''blog'' (path index_file) = ''site:blog:file:index.html''"
    by (simp add: eval_defs)
  have d: "mirror_write_ok empty_world ''site:blog:file:index.html''"
    by (simp add: empty_world_eval mirror_write_ok_def filePath_flat)
  have s: "\<not> isl (fst (storeSite example_env 1000 empty_world ''blog'' [index_file, notes_file]))"
    by (simp add: eval_defs notes_file_def)
  have k: "filePath (generateFileKey ''blog'' (path index_file))
             \<notin> (\<lambda>g. filePath (generateFileKey ''blog'' (path g))) ` set [notes_file]"
    by (simp add: eval_defs notes_file_def)
  have v: "path index_file = ''index.html''" "snd index_html = [0x3C, 0x68, 0x31, 0x3E]"
    "normalize_path (fst index_html) = ''index.html''"
    "content_type_of example_env ''index.html'' = ''text/html''"
    by (simp_all add: eval_defs)
  from C4_round_trip[OF p t, of empty_world "''blog''" "[]" "[notes_file]"] p t d s k v kk
  show ?thesis by simp
qed

text \<open>
  C5. The batch \<open>index.html\<close>, \<open>css/style.css\<close> passes the loop of \<open>uploadSite\<close> and
  \<open>validateSiteStructure\<close>: it is valid, has an entry point and is within the limits.
  On a fresh store \<open>storeSite\<close> writes \<open>index.html\<close> and then throws: the file of the
  key \<open>site:blog:file:css/style.css\<close> lies in a directory that nothing has made. No
  metadata entry is written, \<open>getSiteMetadata\<close> finds nothing (no \<open>fileCount\<close> 2, no
  \<open>totalSize\<close> 7), and \<open>uploadSite\<close> fails the same way.
\<close>

theorem C5_storeSite_fails_on_nested_path:
  "process_site_files example_env 1000 [index_html, style_css] [] 0
     = Inr ([index_file, style_file], 7)
   \<and> validateSiteStructure [index_file, style_file] = Inr ()
   \<and> filePath ''site:blog:file:css/style.css''
       = [''tmp'', ''webdb-storage'', ''site:blog:file:css'', ''style.css.json'']
   \<and> dirs empty_world = [[], [''tmp''], [''tmp'', ''webdb-storage'']]
   \<and> fst (storeSite example_env 1000 empty_world ''blog'' [index_file, style_file])
       = Inl (WriteFileFailed ''site:blog:file:css/style.css'')
   \<and> getSiteMetadata example_env 1000
        (snd (storeSite example_env 1000 empty_world ''blog'' [index_file, style_file])) ''blog''
       = None
   \<and> map_option content
        (getFile example_env 1000
           (snd (storeSite example_env 1000 empty_world ''blog'' [index_file, style_file]))
           ''blog'' ''index.html'') = Some (Bytes [0x3C, 0x68, 0x31, 0x3E])
   \<and> fst (uploadSite example_env 1000 empty_world ''blog'' [index_html, style_css])
       = Inl (WriteFileFailed ''site:blog:file:css/style.css'')
   \<and> getSiteMetadata example_env 1000
        (snd (uploadSite example_env 1000 empty_world ''blog'' [index_html, style_css])) ''blog''
       = None"
  by (simp add: eval_defs style_css_def style_file_def)

text \<open>
  C6. The \<open>totalSize\<close> that a successful \<open>uploadFiles\<close> returns is the total recorded in
  the site's metadata, minus for each file of the batch the recorded size of the file it
  replaces (nothing when there is none), plus the size of the new file. No other stored
  file enters the sum.
\<close>

theorem C6_uploadFiles_total_is_incremental:
  assumes "getSiteMetadata e now w sid = Some metadata"
    and "fst (uploadFiles e now w sid files) = Inr r"
  shows "r_totalSize r =
           totalSize metadata
           + (\<Sum>fd\<leftarrow>files. int (length (snd fd))
                            - replaced_size e now w sid (normalize_path (fst fd)))"
proof (cases "process_added_files e now w sid files [] (totalSize metadata)")
  case (Inl err)
  with assms show ?thesis by (simp add: uploadFiles_def split: if_splits)
next
  case (Inr res)
  obtain sf t where res: "res = (sf, t)" by (cases res)
  from process_added_files_Inr[of e now w sid files "[]" "totalSize metadata" sf t] Inr res
  have t: "t = totalSize metadata
           + (\<Sum>fd\<leftarrow>files. int (length (snd fd))
                            - replaced_size e now w sid (normalize_path (fst fd)))"
    by auto
  from assms Inr res have "r_totalSize r = t"
    by (cases "store_added e now sid sf w []")
       (auto simp: uploadFiles_def split: if_splits sum.splits)
  with t show ?thesis by simp
qed

theorem C6_witness:
  "map_option totalSize (getSiteMetadata example_env 2000 blog_world ''blog'') = Some 10
   \<and> replaced_size example_env 2000 blog_world ''blog'' ''notes.txt'' = 6
   \<and> int (length (snd short_notes_txt)) = 2
   \<and> map_sum id r_totalSize (fst (uploadFiles example_env 2000 blog_world ''blog'' [short_notes_txt]))
       = Inr (10 - (6 - 2))"
proof -
  have m: "getSiteMetadata example_env 2000 blog_world ''blog'' =
             Some \<lparr>siteId = ''blog'', name = ''blog'', domain = ''blog.webdb.site'',
                   totalSize = 10, fileCount = 2, createdAt = 1000, btlExpiry = 2592001000\<rparr>"
    by (simp add: blog_world_eval eval_defs)
  have u: "\<not> isl (fst (uploadFiles example_env 2000 blog_world ''blog'' [short_notes_txt]))"
    by (simp add: blog_world_eval eval_defs short_notes_txt_def)
  then obtain r where r: "fst (uploadFiles example_env 2000 blog_world ''blog'' [short_notes_txt]) = Inr r"
    by (cases "fst (uploadFiles example_env 2000 blog_world ''blog'' [short_notes_txt])") auto
  have v: "replaced_size example_env 2000 blog_world ''blog'' ''notes.txt'' = 6"
    "int (length (snd short_notes_txt)) = 2" "normalize_path (fst short_notes_txt) = ''notes.txt''"
    by (simp_all add: blog_world_eval eval_defs short_notes_txt_def replaced_size_def)
  from C6_uploadFiles_total_is_incremental[OF m r] m r v
  show ?thesis by simp
qed

text \<open>
  C7, as amended. Expiry is decided entry by entry, from the BTL of the entry that is
  read (in seconds) and the current time in whole seconds. An entry whose BTL is positive
  and earlier than the current second is absent for \<open>getFile\<close> and for
  \<open>getSiteMetadata\<close>, although the mirror still holds it. An entry whose BTL is 0 or
  negative, or not earlier than the current second, is served: \<open>getFile\<close> gives the file
  of the entry whatever the state of the site's metadata entry is, and \<open>getSiteMetadata\<close>
  gives the metadata that the entry holds.
\<close>

theorem C7_expiry_is_per_entry:
  "(readLocally w (generateFileKey sid p) = Some fileEntry
      \<and> 0 < btl fileEntry \<and> btl fileEntry < int (now div 1000)
     \<longrightarrow> getFile e now w sid p = None)
   \<and> (readLocally w (generateMetadataKey sid) = Some metadataEntry
      \<and> 0 < btl metadataEntry \<and> btl metadataEntry < int (now div 1000)
     \<longrightarrow> getSiteMetadata e now w sid = None)
   \<and> (readLocally w (generateFileKey sid p) = Some fileEntry
      \<and> (btl fileEntry \<le> 0 \<or> int (now div 1000) \<le> btl fileEntry)
     \<longrightarrow> getFile e now w sid p = Some (file_of_entry fileEntry))
   \<and> (readLocally w (generateMetadataKey sid) = Some metadataEntry
      \<and> (btl metadataEntry \<le> 0 \<or> int (now div 1000) \<le> btl metadataEntry)
     \<longrightarrow> getSiteMetadata e now w sid
           = (case val metadataEntry of
                MetaJson metadata \<Rightarrow> Some metadata
              | Bytes bs \<Rightarrow> json_parse e bs))"
  by (auto simp: getFile_def getSiteMetadata_def isExpired_def file_of_entry_def Let_def)

theorem C7_witness:
  "readLocally blog_world (generateFileKey ''blog'' ''index.html'')
     = Some (file_entry 1000 ''blog'' index_file)
   \<and> btl (file_entry 1000 ''blog'' index_file) = 2592001
   \<and> getFile example_env 2678401000 blog_world ''blog'' ''index.html'' = None
   \<and> map_option btl (readLocally blog_world (generateMetadataKey ''blog'')) = Some 2592001
   \<and> getSiteMetadata example_env 2678401000 blog_world ''blog'' = None
   \<and> map_option btl (readLocally grown_world (generateFileKey ''blog'' ''late.txt'')) = Some 4320000
   \<and> map_option content (getFile example_env 2678401000 grown_world ''blog'' ''late.txt'')
       = Some (Bytes [0x6C])
   \<and> map_option fileCount (getSiteMetadata example_env 2000 blog_world ''blog'') = Some 2"
proof -
  let ?me = "metadata_entry example_env 1000 ''blog''
               \<lparr>siteId = ''blog'', name = ''blog'', domain = ''blog.webdb.site'',
                totalSize = 10, fileCount = 2, createdAt = 1000, btlExpiry = 2592001000\<rparr>"
  let ?late = "file_entry 1728000000 ''blog''
                 \<lparr>path = ''late.txt'', content = Bytes [0x6C],
                  contentType = ''application/octet-stream'', fsize = 1,
                  lastModified = 1728000000\<rparr>"
  have f: "readLocally blog_world (generateFileKey ''blog'' ''index.html'')
             = Some (file_entry 1000 ''blog'' index_file)"
    by (simp add: blog_world_eval eval_defs)
  have fb: "btl (file_entry 1000 ''blog'' index_file) = 2592001"
    by (simp add: eval_defs)
  have m: "readLocally blog_world (generateMetadataKey ''blog'') = Some ?me"
    by (simp add: blog_world_eval eval_defs)
  have mb: "btl ?me = 2592001" "val ?me = MetaJson \<lparr>siteId = ''blog'', name = ''blog'',
                domain = ''blog.webdb.site'', totalSize = 10, fileCount = 2, createdAt = 1000,
                btlExpiry = 2592001000\<rparr>"
    by (simp_all add: eval_defs)
  have l: "readLocally grown_world (generateFileKey ''blog'' ''late.txt'') = Some ?late"
    by (simp add: grown_world_def blog_world_eval late_txt_def eval_defs)
  have lb: "btl ?late = 4320000" "content (file_of_entry ?late) = Bytes [0x6C]"
    by (simp_all add: eval_defs file_of_entry_def)
  have t: "int (2678401000 div 1000) = 2678401" "int (2000 div 1000) = 2"
    by simp_all
  from C7_expiry_is_per_entry[of blog_world "''blog''" "''index.html''"
      "file_entry 1000 ''blog'' index_file" 2678401000 example_env ?me] f fb m mb t
  have 1: "getFile example_env 2678401000 blog_world ''blog'' ''index.html'' = None"
    and 2: "getSiteMetadata example_env 2678401000 blog_world ''blog'' = None"
    by simp_all
  from C7_expiry_is_per_entry[of grown_world "''blog''" "''late.txt''" ?late 2678401000
      example_env ?me] l lb t
  have 3: "getFile example_env 2678401000 grown_world ''blog'' ''late.txt''
             = Some (file_of_entry ?late)"
    by simp
  from C7_expiry_is_per_entry[of blog_world "''blog''" "''index.html''"
      "file_entry 1000 ''blog'' index_file" 2000 example_env ?me] m mb t
  have 4: "getSiteMetadata example_env 2000 blog_world ''blog'' =
             Some \<lparr>siteId = ''blog'', name = ''blog'', domain = ''blog.webdb.site'',
                   totalSize = 10, fileCount = 2, createdAt = 1000, btlExpiry = 2592001000\<rparr>"
    by simp
  from f fb m mb l lb 1 2 3 4 show ?thesis by simp
qed

text \<open>
  The claim as stated fails in two ways. The mirror file of \<open>undated_world\<close> has BTL 0,
  which lies before the current second 5, and \<open>getFile\<close> returns the file. In
  \<open>grown_world\<close> the site \<open>blog\<close> was created at second 1 and \<open>late.txt\<close> was added
  twenty days later: in second 2678401 the metadata entry (BTL 2592001) has expired and
  \<open>getSiteMetadata\<close> finds no site, yet \<open>getFile\<close> still serves \<open>late.txt\<close>.
\<close>

theorem C7_counterexample:
  "readLocally undated_world (generateFileKey ''blog'' ''index.html'') = Some undated_entry
   \<and> btl undated_entry < 5000 div 1000
   \<and> getFile example_env 5000 undated_world ''blog'' ''index.html'' = Some index_file
   \<and> map_option btl (readLocally grown_world (generateMetadataKey ''blog'')) = Some 2592001
   \<and> getSiteMetadata example_env 2678401000 grown_world ''blog'' = None
   \<and> map_option content (getFile example_env 2678401000 grown_world ''blog'' ''late.txt'')
       = Some (Bytes [0x6C])"
  by (simp add: grown_world_def blog_world_eval late_txt_def undated_world_def undated_entry_def
        eval_defs)

text \<open>
  C8. \<open>uploadSite\<close> rejects a batch with a \<open>.php\<close> file or with the hidden file
  \<open>.env\<close>. \<open>uploadFiles\<close> on the existing site accepts both files and stores them:
  \<open>validateSiteStructure\<close>, which holds the extension list and the hidden-file rule,
  is called by \<open>uploadSite\<close> only.
\<close>

theorem C8_uploadFiles_skips_denylist:
  "fst (uploadSite example_env 1000 empty_world ''blog'' [index_html, shell_php])
     = Inl (FileTypeNotAllowed ''shell.php'')
   \<and> fst (uploadSite example_env 1000 empty_world ''blog'' [index_html, dot_env])
     = Inl (HiddenFileNotAllowed ''.env'')
   \<and> \<not> isl (fst (uploadFiles example_env 2000 blog_world ''blog'' [shell_php, dot_env]))
   \<and> map_option content
        (getFile example_env 3000
           (snd (uploadFiles example_env 2000 blog_world ''blog'' [shell_php, dot_env]))
           ''blog'' ''shell.php'') = Some (Bytes [0x3C, 0x3F])
   \<and> map_option content
        (getFile example_env 3000
           (snd (uploadFiles example_env 2000 blog_world ''blog'' [shell_php, dot_env]))
           ''blog'' ''.env'') = Some (Bytes [0x4B])"
  by (simp add: blog_world_eval eval_defs shell_php_def dot_env_def)

text \<open>
  C10. \<open>uploadFiles\<close> never writes the metadata entry. Whatever the outcome of the call,
  the mirror file of the site's metadata key is the one from before, so
  \<open>getSiteMetadata\<close> answers at every time what it would have answered without the
  call: the \<open>totalSize\<close>, \<open>fileCount\<close> and expiry written by \<open>storeSite\<close>. The only mirror
  files that can differ are the files that the keys of the batch's files are written to.
\<close>

theorem C10_uploadFiles_leaves_metadata:
  "readLocally (snd (uploadFiles e now w sid files)) (generateMetadataKey sid)
     = readLocally w (generateMetadataKey sid)
   \<and> getSiteMetadata e t (snd (uploadFiles e now w sid files)) sid = getSiteMetadata e t w sid
   \<and> (fp \<notin> (\<lambda>fd. filePath (generateFileKey sid (normalize_path (fst fd)))) ` set files
      \<longrightarrow> mirror (snd (uploadFiles e now w sid files)) fp = mirror w fp)"
  using uploadFiles_metadata_file[of e now w sid files]
    uploadFiles_mirror_other[of fp sid files e now w]
  by (simp add: getSiteMetadata_def readLocally_def)

theorem C10_witness:
  "\<not> isl (fst (uploadFiles example_env 2000 blog_world ''blog'' [short_notes_txt, shell_php]))
   \<and> map_option totalSize
        (getSiteMetadata example_env 3000
           (snd (uploadFiles example_env 2000 blog_world ''blog'' [short_notes_txt, shell_php])) ''blog'')
       = Some 10
   \<and> map_option fileCount
        (getSiteMetadata example_env 3000
           (snd (uploadFiles example_env 2000 blog_world ''blog'' [short_notes_txt, shell_php])) ''blog'')
       = Some 2
   \<and> map_option btlExpiry
        (getSiteMetadata example_env 3000
           (snd (uploadFiles example_env 2000 blog_world ''blog'' [short_notes_txt, shell_php])) ''blog'')
       = Some 2592001000
   \<and> filePath ''site:blog:file:index.html''
        \<notin> (\<lambda>fd. filePath (generateFileKey ''blog'' (normalize_path (fst fd))))
            ` set [short_notes_txt, shell_php]
   \<and> mirror (snd (uploadFiles example_env 2000 blog_world ''blog'' [short_notes_txt, shell_php]))
        (filePath ''site:blog:file:index.html'')
       = Some (file_entry 1000 ''blog'' index_file)"
proof -
  have u: "\<not> isl (fst (uploadFiles example_env 2000 blog_world ''blog'' [short_notes_txt, shell_php]))"
    by (simp add: blog_world_eval eval_defs short_notes_txt_def shell_php_def)
  have m: "getSiteMetadata example_env 3000 blog_world ''blog'' =
             Some \<lparr>siteId = ''blog'', name = ''blog'', domain = ''blog.webdb.site'',
                   totalSize = 10, fileCount = 2, createdAt = 1000, btlExpiry = 2592001000\<rparr>"
    by (simp add: blog_world_eval eval_defs)
  have k: "filePath ''site:blog:file:index.html''
        \<notin> (\<lambda>fd. filePath (generateFileKey ''blog'' (normalize_path (fst fd))))
            ` set [short_notes_txt, shell_php]"
    by (simp add: eval_defs short_notes_txt_def shell_php_def)
  have i: "mirror blog_world (filePath ''site:blog:file:index.html'')
             = Some (file_entry 1000 ''blog'' index_file)"
    by (simp add: blog_world_eval eval_defs)
  from C10_uploadFiles_leaves_metadata[of example_env 2000 blog_world "''blog''"
      "[short_notes_txt, shell_php]" 3000 "filePath ''site:blog:file:index.html''"] u m k i
  show ?thesis by simp
qed

end
